theory Spec2Isabelle
  imports Main "HOL-Library.Monad_Syntax" "HOL-Library.Multiset"
begin

section \<open>Errors, panics and effects\<close>

text \<open>
  A Go \<open>error\<close> value is either an \<open>awserr.Error\<close> of the SDK (a code and a message) or
  any other error, such as one made by \<open>errors.New\<close>; \<open>nil\<close> is \<open>None\<close> of
  \<open>error option\<close>. A run-time panic (an index or a slice bound out of range, an
  assignment to an entry of a nil map, \<open>regexp.MustCompile\<close> on a bad pattern) is \<open>None\<close>
  of the result of a function that has no effect, and \<open>Panicked\<close> for an operation
  that has issued calls before.
\<close>

datatype error = AwsError string string | PlainError string

text \<open>
  The idiom after a mutating call:
  \<^verbatim>\<open>if awsErr, ok := err.(awserr.Error); ok { return errors.New(awsErr.Message()) }; return err\<close>
\<close>

fun unwrap_awserr :: "error \<Rightarrow> error" where
  "unwrap_awserr (AwsError code message) = PlainError message"
| "unwrap_awserr (PlainError message) = PlainError message"

text \<open>\<open>xs[i]\<close> of Go: a panic when \<open>i\<close> is not below the length.\<close>

definition index :: "'a list \<Rightarrow> nat \<Rightarrow> 'a option" where
  "index xs i = (if i < length xs then Some (xs ! i) else None)"

section \<open>ARNs (aws/arns.go)\<close>

text \<open>
  The struct \<open>models.ARN\<close>; its fields are the ones \<open>ParseArn\<close> assigns. \<open>new(ARN)\<close> is
  the record of empty strings.
\<close>

record ARN =
  Arn :: string
  Partition :: string
  Service :: string
  Region :: string
  AccountID :: string
  ResourceType :: string
  Resource :: string
  PolicyID :: string
  AutoScalingGroupName :: string
  PolicyName :: string
  GroupID :: string

definition new_ARN :: ARN where
  "new_ARN = \<lparr>Arn = [], Partition = [], Service = [], Region = [], AccountID = [],
     ResourceType = [], Resource = [], PolicyID = [], AutoScalingGroupName = [],
     PolicyName = [], GroupID = []\<rparr>"

text \<open>
  \<open>strings.SplitN(s, ":", -1)\<close>: every substring between two separators, so a string
  with \<open>k\<close> colons gives \<open>k + 1\<close> segments and the empty string gives one empty segment.
  The last case of the inner \<open>case\<close> is never taken: the result is never empty.
\<close>

fun SplitN_all :: "char \<Rightarrow> string \<Rightarrow> string list" where
  "SplitN_all sep [] = [[]]"
| "SplitN_all sep (c # cs) =
     (if c = sep then [] # SplitN_all sep cs
      else (case SplitN_all sep cs of w # ws \<Rightarrow> (c # w) # ws | [] \<Rightarrow> [[c]]))"

text \<open>\<open>strings.TrimLeft(s, cutset)\<close> drops the leading characters that occur in the cutset.\<close>

definition TrimLeft :: "string \<Rightarrow> string \<Rightarrow> string" where
  "TrimLeft s cutset = dropWhile (\<lambda>c. c \<in> set cutset) s"

definition ParseArn :: "string \<Rightarrow> (error + ARN) option" where
  "ParseArn arnStr =
     (let split = SplitN_all CHR '':'' arnStr in
      if length split < 6 then Some (Inl (PlainError ''Error parsing ARN string!''))
      else do {
        s0 \<leftarrow> index split 0;
        s1 \<leftarrow> index split 1;
        s2 \<leftarrow> index split 2;
        s3 \<leftarrow> index split 3;
        s4 \<leftarrow> index split 4;
        let arn = new_ARN\<lparr>Arn := s0, Partition := s1, Service := s2, Region := s3,
                    AccountID := s4\<rparr>;
        if Service arn = ''autoscaling'' then do {
          s5 \<leftarrow> index split 5;
          let arn = arn\<lparr>ResourceType := s5\<rparr>;
          if ResourceType arn = ''scalingPolicy'' then do {
            s6 \<leftarrow> index split 6;
            s7 \<leftarrow> index split 7;
            s8 \<leftarrow> index split 8;
            Some (Inr (arn\<lparr>PolicyID := s6,
              AutoScalingGroupName := TrimLeft s7 ''autoScalingGroupName/'',
              PolicyName := TrimLeft s8 ''policyName/''\<rparr>))
          } else if ResourceType arn = ''autoScalingGroup'' then do {
            s6 \<leftarrow> index split 6;
            s7 \<leftarrow> index split 7;
            Some (Inr (arn\<lparr>GroupID := s6, AutoScalingGroupName := s7\<rparr>))
          } else Some (Inr arn)
        } else if length split = 6 then do {
          s5 \<leftarrow> index split 5;
          Some (Inr (arn\<lparr>Resource := s5\<rparr>))
        } else do {
          s5 \<leftarrow> index split 5;
          s6 \<leftarrow> index split 6;
          Some (Inr (arn\<lparr>ResourceType := s5, Resource := s6\<rparr>))
        }
      })"

section \<open>Rows of the listings (models)\<close>

text \<open>
  \<open>models.LaunchConfig\<close>, in the order of its declaration, with the field names
  \<open>ImageID\<close> and \<open>SnapshotIDs\<close> that aws/launchconfigurations.go uses. \<open>CreationTime\<close>
  is a \<open>time.Time\<close>; the model keeps the instant as an integer, so that
  \<open>t.After(u)\<close> is \<open>u < t\<close>.
\<close>

record LaunchConfig =
  Name :: string
  ImageName :: string
  ImageID :: string
  InstanceType :: string
  KeyName :: string
  SecurityGroups :: string
  CreationTime :: int
  CreatedHuman :: string
  Region :: string
  EbsOptimized :: bool
  SnapshotIDs :: "string list"

text \<open>
  \<open>models.AutoScaleGroup\<close>, \<open>models.Alarm\<close> and \<open>models.Address\<close>: the fields are the
  ones the \<open>Marshal\<close> methods assign, in that order.
\<close>

record AutoScaleGroup =
  Name :: string
  Class :: string
  HealthCheckType :: string
  HealthCheckGracePeriod :: int
  LaunchConfig :: string
  LoadBalancers :: "string list"
  InstanceCount :: int
  DesiredCapacity :: int
  MinSize :: int
  MaxSize :: int
  DefaultCooldown :: int
  AvailabilityZones :: "string list"
  SubnetID :: string
  SubnetName :: string
  VpcID :: string
  VpcName :: string
  Region :: string

record Alarm =
  Name :: string
  Arn :: string
  Description :: string
  State :: string
  Trigger :: string
  Period :: string
  EvalPeriods :: string
  ActionArns :: "string list"
  ActionNames :: string
  Dimensions :: string
  Namespace :: string
  Region :: string

record Address =
  AllocationID :: string
  PublicIP :: string
  PrivateIP :: string
  InstanceID :: string
  Domain :: string
  NetworkInterfaceID :: string
  NetworkInterfaceOwnerID :: string
  Region :: string
  Status :: string
  Attachment :: string

text \<open>
  What the search loops read: \<open>reflect.ValueOf(row).Field(k).String()\<close> for every
  field \<open>k\<close>. \<open>Value.String\<close> is the string itself for a field of kind string and
  \<open>"<T Value>"\<close> for a field of any other type \<open>T\<close>.
\<close>

definition reflect_LaunchConfig :: "LaunchConfig \<Rightarrow> string list" where
  "reflect_LaunchConfig c =
     [LaunchConfig.Name c, ImageName c, ImageID c, LaunchConfig.InstanceType c,
      LaunchConfig.KeyName c, LaunchConfig.SecurityGroups c, ''<time.Time Value>'',
      CreatedHuman c, LaunchConfig.Region c,
      ''<bool Value>'', ''<[]string Value>'']"

definition reflect_AutoScaleGroup :: "AutoScaleGroup \<Rightarrow> string list" where
  "reflect_AutoScaleGroup g =
     [AutoScaleGroup.Name g, Class g, HealthCheckType g, ''<int Value>'', LaunchConfig g,
      ''<[]string Value>'', ''<int Value>'', ''<int Value>'', ''<int Value>'',
      ''<int Value>'', ''<int Value>'', ''<[]string Value>'', SubnetID g, SubnetName g,
      VpcID g, VpcName g, AutoScaleGroup.Region g]"

definition reflect_Alarm :: "Alarm \<Rightarrow> string list" where
  "reflect_Alarm a =
     [Alarm.Name a, Alarm.Arn a, Description a, State a, Trigger a, Period a,
      EvalPeriods a, ''<[]string Value>'', ActionNames a, Dimensions a, Namespace a,
      Alarm.Region a]"

definition reflect_Address :: "Address \<Rightarrow> string list" where
  "reflect_Address a =
     [AllocationID a, PublicIP a, PrivateIP a, InstanceID a, Domain a,
      NetworkInterfaceID a, NetworkInterfaceOwnerID a, Address.Region a, Status a,
      Attachment a]"

section \<open>Configuration classes (config)\<close>

text \<open>
  \<open>config.InstanceClass\<close> as declared, and \<open>config.LaunchConfigurationClass\<close> with the
  fields that the functions of package aws read. \<open>Version\<close> and \<open>Retain\<close> are Go
  ints.
\<close>

record InstanceClass =
  InstanceType :: string
  SecurityGroups :: "string list"
  EBSVolumes :: "string list"
  Vpc :: string
  Subnet :: string
  PublicIPAddress :: bool
  AMI :: string
  KeyName :: string
  EbsOptimized :: bool
  Monitoring :: bool
  ShutdownBehavior :: string
  IAMUser :: string
  UserData :: string

record LaunchConfigurationClass =
  Version :: int
  InstanceClass :: string
  Regions :: "string list"
  Retain :: int

section \<open>Formatting of names\<close>

text \<open>
  \<^verbatim>\<open>fmt.Sprintf("%s-v%d", class, version)\<close>: the verb \<open>%d\<close> writes an int in decimal, with a
  minus sign when it is negative.
\<close>

definition digit :: "nat \<Rightarrow> char" where
  "digit d = ''0123456789'' ! d"

fun FormatUint :: "nat \<Rightarrow> string" where
  "FormatUint n = (if n < 10 then [digit n] else FormatUint (n div 10) @ [digit (n mod 10)])"

declare FormatUint.simps [simp del]

definition Sprintf_d :: "int \<Rightarrow> string" where
  "Sprintf_d v = (if v < 0 then CHR ''-'' # FormatUint (nat (- v)) else FormatUint (nat v))"

definition Sprintf_name :: "string \<Rightarrow> int \<Rightarrow> string" where
  "Sprintf_name class version = class @ ''-v'' @ Sprintf_d version"

text \<open>The number that a string of decimal digits denotes, to state what \<open>%d\<close> writes.\<close>

definition digit_value :: "char \<Rightarrow> nat" where
  "digit_value c = of_char c - 48"

definition decimal_value :: "string \<Rightarrow> nat" where
  "decimal_value ds = foldl (\<lambda>acc c. 10 * acc + digit_value c) 0 ds"

section \<open>Maps from strings to bool\<close>

text \<open>
  A \<open>map[string]bool\<close> is nil until \<open>make\<close> creates it. Reading a key of a nil map or a
  missing key gives \<open>false\<close>; \<open>m[k] = v\<close> on a nil map panics.
\<close>

datatype bool_map = NilMap | MadeMap "string \<rightharpoonup> bool"

fun map_read :: "bool_map \<Rightarrow> string \<Rightarrow> bool" where
  "map_read NilMap k = False"
| "map_read (MadeMap m) k = (case m k of None \<Rightarrow> False | Some b \<Rightarrow> b)"

fun map_store :: "bool_map \<Rightarrow> string \<Rightarrow> bool \<Rightarrow> bool_map option" where
  "map_store NilMap k v = None"
| "map_store (MadeMap m) k v = Some (MadeMap (m(k \<mapsto> v)))"

fun map_keys :: "bool_map \<Rightarrow> string set" where
  "map_keys NilMap = {}"
| "map_keys (MadeMap m) = dom m"

section \<open>Locked identifiers (aws/launchconfigurations.go, aws/autoscalegroups.go)\<close>

text \<open>
  \<open>LockedSnapshotIds\<close> and \<open>LockedImageIds\<close> store into their named result \<open>ids\<close>, which
  no statement makes: it is the nil map when the loops start.
\<close>

fun store_snapshots :: "bool_map \<Rightarrow> string list \<Rightarrow> bool_map option" where
  "store_snapshots ids [] = Some ids"
| "store_snapshots ids (snap # snaps) =
     (case map_store ids snap True of None \<Rightarrow> None
      | Some ids' \<Rightarrow> store_snapshots ids' snaps)"

fun LockedSnapshotIds_loop :: "bool_map \<Rightarrow> LaunchConfig list \<Rightarrow> bool_map option" where
  "LockedSnapshotIds_loop ids [] = Some ids"
| "LockedSnapshotIds_loop ids (config # l) =
     (case store_snapshots ids (SnapshotIDs config) of None \<Rightarrow> None
      | Some ids' \<Rightarrow> LockedSnapshotIds_loop ids' l)"

definition LockedSnapshotIds :: "LaunchConfig list \<Rightarrow> bool_map option" where
  "LockedSnapshotIds l = LockedSnapshotIds_loop NilMap l"

fun LockedImageIds_loop :: "bool_map \<Rightarrow> LaunchConfig list \<Rightarrow> bool_map option" where
  "LockedImageIds_loop ids [] = Some ids"
| "LockedImageIds_loop ids (config # l) =
     (case map_store ids (ImageID config) True of None \<Rightarrow> None
      | Some ids' \<Rightarrow> LockedImageIds_loop ids' l)"

definition LockedImageIds :: "LaunchConfig list \<Rightarrow> bool_map option" where
  "LockedImageIds l = LockedImageIds_loop NilMap l"

text \<open>
  \<open>LockedLaunchConfigurations\<close> makes its map before the loop, so its stores cannot
  panic; the model returns the made map's contents.
\<close>

fun LockedLaunchConfigurations_loop ::
  "(string \<rightharpoonup> bool) \<Rightarrow> AutoScaleGroup list \<Rightarrow> (string \<rightharpoonup> bool)" where
  "LockedLaunchConfigurations_loop names [] = names"
| "LockedLaunchConfigurations_loop names (asg # a) =
     LockedLaunchConfigurations_loop (names(LaunchConfig asg \<mapsto> True)) a"

definition LockedLaunchConfigurations :: "AutoScaleGroup list \<Rightarrow> bool_map" where
  "LockedLaunchConfigurations a = MadeMap (LockedLaunchConfigurations_loop Map.empty a)"

section \<open>The surroundings of the program\<close>

text \<open>
  A mutating call of the SDK with the parameters that identify it: the region of the
  session and the name of the resource (for \<open>AllocateAddress\<close> the domain and the
  \<open>DryRun\<close> parameter, for \<open>DeleteAutoScalingGroup\<close> the \<open>ForceDelete\<close> parameter). An
  effect is such a call, or the dump of its parameters that a dry run prints
  (\<open>terminal.Notice("Params:")\<close> and \<open>fmt.Println(params)\<close>).
\<close>

datatype sdk_call =
    CreateLaunchConfiguration string string
  | DeleteLaunchConfiguration string string
  | DeleteAutoScalingGroup string string bool
  | AllocateAddress string string bool

datatype effect = Sdk sdk_call | ParamsPrinted sdk_call

datatype outcome = Panicked | Returned "error option"

text \<open>
  Everything the functions ask of their surroundings, as the answers they get: the
  describe calls (with the rows already marshalled: \<open>Marshal\<close> copies fields), the region
  lists of \<open>GetRegionList\<close> and \<open>GetRegionListWithoutIgnored\<close>, \<open>ValidRegion\<close>, the answer
  of every mutating call, \<open>regexp.MustCompile\<close> (\<open>None\<close> when the pattern does not
  compile, else the compiled expression's \<open>MatchString\<close>), \<open>sort.Sort\<close> on a list of launch
  configurations as the list it leaves, the order in which the Go scheduler runs the
  steps of the goroutines of a fan-out, the answer typed at \<open>terminal.PromptBool\<close>, and
  the configuration store: the two loaders,
  \<open>cfg.Increment(class)\<close> as the class it leaves in \<open>cfg\<close>, the error of \<open>GetIAMUser\<close>, and
  \<open>region_lookups\<close>, the first error among the read-only lookups that
  \<open>CreateLaunchConfigurations\<close> makes for a region before its create call (volume
  classes, latest snapshots, image, key pair, VPC, subnet, security groups), each of
  which returns that error at once. These are calls into the SDK, the configuration
  store, the regexp and sort libraries, the scheduler and the terminal; their answers
  are arbitrary. A function
  of the surroundings gives one answer per argument: the model does not show a
  describe call that sees an earlier mutation.
\<close>

record surroundings =
  GetRegionList :: "string list"
  GetRegionListWithoutIgnored :: "string list"
  ValidRegion :: "string \<Rightarrow> bool"
  DescribeLaunchConfigurations :: "string \<Rightarrow> error + LaunchConfig list"
  DescribeLaunchConfigurationsNamed :: "string \<Rightarrow> string \<Rightarrow> error + LaunchConfig list"
  GetRegionSecurityGroups :: "string \<Rightarrow> error option"
  DescribeAutoScalingGroups :: "string \<Rightarrow> error + AutoScaleGroup list"
  DescribeAlarms :: "string \<Rightarrow> error + Alarm list"
  DescribeAddresses :: "string \<Rightarrow> error + Address list"
  MustCompile :: "string \<Rightarrow> (string \<Rightarrow> bool) option"
  Sort :: "LaunchConfig list \<Rightarrow> LaunchConfig list"
  scheduler :: "nat list"
  PromptBool :: bool
  mutate :: "sdk_call \<Rightarrow> error option"
  LoadLaunchConfigurationClass :: "string \<Rightarrow> error + LaunchConfigurationClass"
  LoadInstanceClass :: "string \<Rightarrow> error + InstanceClass"
  Increment :: "string \<Rightarrow> LaunchConfigurationClass \<Rightarrow> LaunchConfigurationClass"
  GetIAMUser :: "string \<Rightarrow> error option"
  region_lookups :: "InstanceClass \<Rightarrow> string \<Rightarrow> error option"

section \<open>Region listings and their fan-out\<close>

text \<open>
  The inner loop of a search, \<^verbatim>\<open>for k := 0; k < r.NumField(); k++\<close>: whether the compiled
  expression matches the string of some field, tried in order.
\<close>

fun field_loop :: "(string \<Rightarrow> bool) \<Rightarrow> string list \<Rightarrow> bool" where
  "field_loop MatchString [] = False"
| "field_loop MatchString (sVal # rest) =
     (if MatchString sVal then True else field_loop MatchString rest)"

text \<open>
  The inner loop of \<open>GetRegionAddresses\<close> has one more condition on the row:
  \<^verbatim>\<open>term.MatchString(sVal) && ((available && adr[i].Status == "available") || !available)\<close>
\<close>

fun address_field_loop :: "(string \<Rightarrow> bool) \<Rightarrow> bool \<Rightarrow> Address \<Rightarrow> string list \<Rightarrow> bool" where
  "address_field_loop MatchString available ad [] = False"
| "address_field_loop MatchString available ad (sVal # rest) =
     (if MatchString sVal \<and> ((available \<and> Status ad = ''available'') \<or> \<not> available)
      then True else address_field_loop MatchString available ad rest)"

text \<open>
  The outer loop (label \<open>Loop\<close>): a row is appended to the result at its first
  matching field, and the loop goes on with the next row.
\<close>

fun search_loop :: "('r \<Rightarrow> bool) \<Rightarrow> 'r list \<Rightarrow> 'r list \<Rightarrow> 'r list" where
  "search_loop hit [] out = out"
| "search_loop hit (c # cs) out =
     (if hit c then search_loop hit cs (out @ [c]) else search_loop hit cs out)"

text \<open>
  The four region listings. Each returns its error and the list the caller passed,
  extended; \<open>None\<close> is the panic of \<open>regexp.MustCompile\<close>. Only
  \<open>GetRegionLaunchConfigurations\<close> returns early on an empty answer.
\<close>

definition GetRegionLaunchConfigurations ::
  "'a surroundings_scheme \<Rightarrow> string \<Rightarrow> LaunchConfig list \<Rightarrow> string
     \<Rightarrow> (error option \<times> LaunchConfig list) option" where
  "GetRegionLaunchConfigurations w region lcList search =
     (case DescribeLaunchConfigurations w region of
        Inl err \<Rightarrow> Some (Some err, lcList)
      | Inr lc \<Rightarrow>
          if lc = [] then Some (None, lcList)
          else if search \<noteq> [] then
            (case MustCompile w search of
               None \<Rightarrow> None
             | Some MatchString \<Rightarrow>
                 Some (None, search_loop (\<lambda>c. field_loop MatchString (reflect_LaunchConfig c)) lc lcList))
          else Some (None, lcList @ lc))"

definition GetRegionAutoScaleGroups ::
  "'a surroundings_scheme \<Rightarrow> string \<Rightarrow> AutoScaleGroup list \<Rightarrow> string
     \<Rightarrow> (error option \<times> AutoScaleGroup list) option" where
  "GetRegionAutoScaleGroups w region asgList search =
     (case DescribeAutoScalingGroups w region of
        Inl err \<Rightarrow> Some (Some err, asgList)
      | Inr asg \<Rightarrow>
          if search \<noteq> [] then
            (case MustCompile w search of
               None \<Rightarrow> None
             | Some MatchString \<Rightarrow>
                 Some (None, search_loop (\<lambda>g. field_loop MatchString (reflect_AutoScaleGroup g)) asg asgList))
          else Some (None, asgList @ asg))"

definition GetRegionAlarms ::
  "'a surroundings_scheme \<Rightarrow> string \<Rightarrow> Alarm list \<Rightarrow> string
     \<Rightarrow> (error option \<times> Alarm list) option" where
  "GetRegionAlarms w region alList search =
     (case DescribeAlarms w region of
        Inl err \<Rightarrow> Some (Some err, alList)
      | Inr al \<Rightarrow>
          if search \<noteq> [] then
            (case MustCompile w search of
               None \<Rightarrow> None
             | Some MatchString \<Rightarrow>
                 Some (None, search_loop (\<lambda>g. field_loop MatchString (reflect_Alarm g)) al alList))
          else Some (None, alList @ al))"

definition GetRegionAddresses ::
  "'a surroundings_scheme \<Rightarrow> string \<Rightarrow> Address list \<Rightarrow> string \<Rightarrow> bool
     \<Rightarrow> (error option \<times> Address list) option" where
  "GetRegionAddresses w region adrList search available =
     (case DescribeAddresses w region of
        Inl err \<Rightarrow> Some (Some err, adrList)
      | Inr adr \<Rightarrow>
          if search \<noteq> [] then
            (case MustCompile w search of
               None \<Rightarrow> None
             | Some MatchString \<Rightarrow>
                 Some (None, search_loop
                   (\<lambda>ad. address_field_loop MatchString available ad (reflect_Address ad)) adr adrList))
          else Some (None, adrList @ adr))"

text \<open>
  The same four listings as the writes they make to what their goroutines share: an
  append of rows to the list (\<^verbatim>\<open>*lcList = append(*lcList, ...)\<close>, one per matching row
  under a search term, one for all rows without), or the append of the error that the
  goroutine makes after the listing returns it (\<^verbatim>\<open>errs = append(errs, err)\<close>).
\<close>

datatype 'r action = AppendRows "'r list" | AppendErr error

definition GetRegionLaunchConfigurations_appends ::
  "'a surroundings_scheme \<Rightarrow> string \<Rightarrow> string \<Rightarrow> LaunchConfig action list option" where
  "GetRegionLaunchConfigurations_appends w region search =
     (case DescribeLaunchConfigurations w region of
        Inl err \<Rightarrow> Some [AppendErr err]
      | Inr lc \<Rightarrow>
          if lc = [] then Some []
          else if search \<noteq> [] then
            (case MustCompile w search of
               None \<Rightarrow> None
             | Some MatchString \<Rightarrow>
                 Some (map (\<lambda>c. AppendRows [c])
                        (filter (\<lambda>c. field_loop MatchString (reflect_LaunchConfig c)) lc)))
          else Some [AppendRows lc])"

definition GetRegionAutoScaleGroups_appends ::
  "'a surroundings_scheme \<Rightarrow> string \<Rightarrow> string \<Rightarrow> AutoScaleGroup action list option" where
  "GetRegionAutoScaleGroups_appends w region search =
     (case DescribeAutoScalingGroups w region of
        Inl err \<Rightarrow> Some [AppendErr err]
      | Inr asg \<Rightarrow>
          if search \<noteq> [] then
            (case MustCompile w search of
               None \<Rightarrow> None
             | Some MatchString \<Rightarrow>
                 Some (map (\<lambda>g. AppendRows [g])
                        (filter (\<lambda>g. field_loop MatchString (reflect_AutoScaleGroup g)) asg)))
          else Some [AppendRows asg])"

definition GetRegionAlarms_appends ::
  "'a surroundings_scheme \<Rightarrow> string \<Rightarrow> string \<Rightarrow> Alarm action list option" where
  "GetRegionAlarms_appends w region search =
     (case DescribeAlarms w region of
        Inl err \<Rightarrow> Some [AppendErr err]
      | Inr al \<Rightarrow>
          if search \<noteq> [] then
            (case MustCompile w search of
               None \<Rightarrow> None
             | Some MatchString \<Rightarrow>
                 Some (map (\<lambda>a. AppendRows [a])
                        (filter (\<lambda>a. field_loop MatchString (reflect_Alarm a)) al)))
          else Some [AppendRows al])"

definition GetRegionAddresses_appends ::
  "'a surroundings_scheme \<Rightarrow> string \<Rightarrow> string \<Rightarrow> bool \<Rightarrow> Address action list option" where
  "GetRegionAddresses_appends w region search available =
     (case DescribeAddresses w region of
        Inl err \<Rightarrow> Some [AppendErr err]
      | Inr adr \<Rightarrow>
          if search \<noteq> [] then
            (case MustCompile w search of
               None \<Rightarrow> None
             | Some MatchString \<Rightarrow>
                 Some (map (\<lambda>ad. AppendRows [ad])
                        (filter (\<lambda>ad. address_field_loop MatchString available ad (reflect_Address ad)) adr)))
          else Some [AppendRows adr])"

text \<open>
  The fan-out of \<open>GetLaunchConfigurations\<close>, \<open>GetAutoScaleGroups\<close>, \<open>GetAlarms\<close> and
  \<open>GetAddresses\<close>, written once. There is a goroutine per region, and no lock: an
  append is a read of the shared slice and, later, a write of the slice that was
  read, extended. A goroutine is what it has read and not yet written back, and the
  appends it still has to make; a step of a goroutine is the read or the write of its
  next append. The steps are taken in the order that the scheduler gives (the number
  of the goroutine that steps next; a number that names no goroutine or a finished
  one changes nothing), and \<open>wg.Wait()\<close> lets every goroutine finish before the
  return: the model appends, to any schedule, steps enough for each goroutine in
  turn. If the listing of some region panics, the program ends.
\<close>

datatype 'r register = Idle | HoldsRows "'r list" | HoldsErrs "error list"

type_synonym 'r goroutine = "'r register \<times> 'r action list"

type_synonym 'r shared = "'r list \<times> error list"

fun step_goroutine :: "'r shared \<Rightarrow> 'r goroutine \<Rightarrow> 'r shared \<times> 'r goroutine" where
  "step_goroutine (rows, errs) (Idle, AppendRows new # todo) =
     ((rows, errs), (HoldsRows rows, AppendRows new # todo))"
| "step_goroutine (rows, errs) (HoldsRows old, AppendRows new # todo) =
     ((old @ new, errs), (Idle, todo))"
| "step_goroutine (rows, errs) (Idle, AppendErr err # todo) =
     ((rows, errs), (HoldsErrs errs, AppendErr err # todo))"
| "step_goroutine (rows, errs) (HoldsErrs old, AppendErr err # todo) =
     ((rows, old @ [err]), (Idle, todo))"
| "step_goroutine sh g = (sh, g)"

definition step :: "nat \<Rightarrow> 'r shared \<times> 'r goroutine list \<Rightarrow> 'r shared \<times> 'r goroutine list" where
  "step i st =
     (if i < length (snd st)
      then (case step_goroutine (fst st) (snd st ! i) of
              (sh, g) \<Rightarrow> (sh, (snd st)[i := g]))
      else st)"

definition completion :: "'r action list list \<Rightarrow> nat list" where
  "completion acts = concat (map (\<lambda>i. replicate (2 * length (acts ! i)) i) [0..<length acts])"

definition joined :: "nat list \<Rightarrow> 'r action list list \<Rightarrow> 'r shared" where
  "joined schedule acts =
     fst (fold step (schedule @ completion acts) (([], []), map (Pair Idle) acts))"

fun all_some :: "'a option list \<Rightarrow> 'a list option" where
  "all_some [] = Some []"
| "all_some (None # xs) = None"
| "all_some (Some x # xs) = map_option ((#) x) (all_some xs)"

definition fan_out :: "nat list \<Rightarrow> 'r action list option list \<Rightarrow> ('r list \<times> error list) option" where
  "fan_out schedule tasks = map_option (joined schedule) (all_some tasks)"

definition GetLaunchConfigurations ::
  "'a surroundings_scheme \<Rightarrow> string \<Rightarrow> (LaunchConfig list \<times> error list) option" where
  "GetLaunchConfigurations w search =
     fan_out (scheduler w)
       (map (\<lambda>region. GetRegionLaunchConfigurations_appends w region search) (GetRegionList w))"

definition GetAutoScaleGroups ::
  "'a surroundings_scheme \<Rightarrow> string \<Rightarrow> (AutoScaleGroup list \<times> error list) option" where
  "GetAutoScaleGroups w search =
     fan_out (scheduler w)
       (map (\<lambda>region. GetRegionAutoScaleGroups_appends w region search)
          (GetRegionListWithoutIgnored w))"

definition GetAlarms ::
  "'a surroundings_scheme \<Rightarrow> string \<Rightarrow> (Alarm list \<times> error list) option" where
  "GetAlarms w search =
     fan_out (scheduler w)
       (map (\<lambda>region. GetRegionAlarms_appends w region search) (GetRegionListWithoutIgnored w))"

definition GetAddresses ::
  "'a surroundings_scheme \<Rightarrow> string \<Rightarrow> bool \<Rightarrow> (Address list \<times> error list) option" where
  "GetAddresses w search available =
     fan_out (scheduler w)
       (map (\<lambda>region. GetRegionAddresses_appends w region search available) (GetRegionList w))"

section \<open>Rotation of launch configurations\<close>

text \<open>
  \<open>GetLaunchConfigurationsByName\<close>: the configurations the describe call gives for the
  name, with the error of \<open>GetRegionSecurityGroups\<close>, which the function returns beside
  a list that is not empty.
\<close>

definition GetLaunchConfigurationsByName ::
  "'a surroundings_scheme \<Rightarrow> string \<Rightarrow> string \<Rightarrow> LaunchConfig list \<times> error option" where
  "GetLaunchConfigurationsByName w region name =
     (case DescribeLaunchConfigurationsNamed w region name of
        Inl err \<Rightarrow> ([], Some err)
      | Inr lcList \<Rightarrow>
          if lcList = [] then ([], None) else (lcList, GetRegionSecurityGroups w region))"

text \<open>
  A slice is its backing array from the slice's start up to its capacity, and its
  length. The statement \<^verbatim>\<open>launchConfigs = append(launchConfigs[:i], launchConfigs[i+1:]...)\<close>
  panics when \<open>i\<close> exceeds the capacity or \<open>i + 1\<close> exceeds the length; otherwise it
  moves the elements after \<open>i\<close> one place down inside the same array and makes the
  slice one shorter. The array keeps its old last element.
\<close>

type_synonym 'a slice = "'a list \<times> nat"

definition slice_elems :: "'a slice \<Rightarrow> 'a list" where
  "slice_elems s = take (snd s) (fst s)"

definition delete_at :: "nat \<Rightarrow> 'a slice \<Rightarrow> 'a slice option" where
  "delete_at i s =
     (let arr = fst s; n = snd s in
      if length arr < i then None
      else if n < i + 1 then None
      else Some (take i arr @ drop (i + 1) (take n arr) @ drop (n - 1) arr, n - 1))"

text \<open>
  The exclusion loop, \<^verbatim>\<open>for i, lc := range launchConfigs\<close>: the range expression is
  evaluated once, so \<open>i\<close> runs over the indices of the slice as it was before the loop,
  and \<open>lc\<close> is read from the shared array at each step, while the body replaces
  \<open>launchConfigs\<close> by the shortened slice.
\<close>

fun exclude_loop :: "bool_map \<Rightarrow> nat list \<Rightarrow> LaunchConfig slice \<Rightarrow> LaunchConfig slice option" where
  "exclude_loop excludedConfigs [] s = Some s"
| "exclude_loop excludedConfigs (i # is) s =
     (if map_read excludedConfigs (LaunchConfig.Name (fst s ! i))
      then (case delete_at i s of
              None \<Rightarrow> None
            | Some s' \<Rightarrow> exclude_loop excludedConfigs is s')
      else exclude_loop excludedConfigs is s)"


text \<open>
  The body of the goroutine of \<open>RotateLaunchConfigurations\<close> for one region, from the
  exclusion loop on: the list \<open>ds\<close> it passes to \<open>deleteLaunchConfigurations\<close>, the empty
  list when it makes no call, and \<open>None\<close> when it panics (in the exclusion loop, or at
  \<^verbatim>\<open>launchConfigs[cfg.Retain:]\<close> with a negative \<open>Retain\<close>).
\<close>

definition RotateRegion ::
  "(LaunchConfig list \<Rightarrow> LaunchConfig list) \<Rightarrow> bool_map \<Rightarrow> int \<Rightarrow> LaunchConfig list
     \<Rightarrow> LaunchConfig list option" where
  "RotateRegion srt excludedConfigs retain launchConfigs =
     (case exclude_loop excludedConfigs [0..<length launchConfigs]
             (launchConfigs, length launchConfigs) of
        None \<Rightarrow> None
      | Some s \<Rightarrow>
          if retain < int (length (slice_elems s)) then
            (if retain < 0 then None
             else Some (drop (nat retain) (srt (slice_elems s))))
          else Some [])"

text \<open>
  The rotation rule in the words of the specification: the configurations of the class
  without every one whose name an auto-scaling group refers to, newest first, and of
  these all but the first \<open>Retain\<close> when there are more than \<open>Retain\<close>.
\<close>

definition rotation_rule ::
  "(LaunchConfig list \<Rightarrow> LaunchConfig list) \<Rightarrow> bool_map \<Rightarrow> int \<Rightarrow> LaunchConfig list
     \<Rightarrow> LaunchConfig list" where
  "rotation_rule srt excludedConfigs retain launchConfigs =
     (let remainder = filter (\<lambda>lc. \<not> map_read excludedConfigs (LaunchConfig.Name lc)) launchConfigs
      in if retain < int (length remainder)
         then drop (nat retain) (srt remainder) else [])"

text \<open>\<open>deleteLaunchConfigurations\<close>: one delete call per entry unless \<open>dryRun\<close>, stopping at the first error.\<close>

fun deleteLaunchConfigurations ::
  "(sdk_call \<Rightarrow> error option) \<Rightarrow> LaunchConfig list \<Rightarrow> bool \<Rightarrow> effect list \<times> error option" where
  "deleteLaunchConfigurations svc [] dryRun = ([], None)"
| "deleteLaunchConfigurations svc (lc # lcList) dryRun =
     (if \<not> dryRun then
        (case svc (DeleteLaunchConfiguration (LaunchConfig.Region lc) (LaunchConfig.Name lc)) of
           Some err \<Rightarrow>
             ([Sdk (DeleteLaunchConfiguration (LaunchConfig.Region lc) (LaunchConfig.Name lc))], Some err)
         | None \<Rightarrow>
             (case deleteLaunchConfigurations svc lcList dryRun of
                (effects, r) \<Rightarrow>
                  (Sdk (DeleteLaunchConfiguration (LaunchConfig.Region lc) (LaunchConfig.Name lc)) # effects, r)))
      else deleteLaunchConfigurations svc lcList dryRun)"

text \<open>
  The goroutines of \<open>RotateLaunchConfigurations\<close>. Each lists the configurations of its
  region, appends the error of that listing to the shared \<open>errs\<close>, and deletes; the
  error that \<open>deleteLaunchConfigurations\<close> returns is not read. The deletes of one
  region depend on nothing that another goroutine writes, so \<open>rotate_regions\<close> lists
  the effects region by region, up to the first goroutine that panics, beside the
  listing error of every region; the appends to \<open>errs\<close> are then joined as in a
  fan-out.
\<close>

fun rotate_regions ::
  "'a surroundings_scheme \<Rightarrow> bool_map \<Rightarrow> string \<Rightarrow> int \<Rightarrow> bool \<Rightarrow> string list
     \<Rightarrow> effect list \<times> error option list option" where
  "rotate_regions w excludedConfigs class retain dryRun [] = ([], Some [])"
| "rotate_regions w excludedConfigs class retain dryRun (region # regions) =
     (case GetLaunchConfigurationsByName w region class of
        (launchConfigs, err) \<Rightarrow>
          (case RotateRegion (Sort w) excludedConfigs retain launchConfigs of
             None \<Rightarrow> ([], None)
           | Some ds \<Rightarrow>
               (case rotate_regions w excludedConfigs class retain dryRun regions of
                  (effects, errs) \<Rightarrow>
                    (fst (deleteLaunchConfigurations (mutate w) ds dryRun) @ effects,
                     map_option ((#) err) errs))))"

definition error_appends :: "error option \<Rightarrow> unit action list" where
  "error_appends err = (case err of None \<Rightarrow> [] | Some e \<Rightarrow> [AppendErr e])"

definition RotateLaunchConfigurations ::
  "'a surroundings_scheme \<Rightarrow> string \<Rightarrow> LaunchConfigurationClass \<Rightarrow> bool \<Rightarrow> effect list \<times> outcome" where
  "RotateLaunchConfigurations w class cfg dryRun =
     (case GetAutoScaleGroups w [] of
        None \<Rightarrow> ([], Panicked)
      | Some (autoScaleGroups, errs) \<Rightarrow>
          if errs \<noteq> [] then
            ([], Returned (Some (PlainError
              ''Error while retrieving the list of launch configurations to exclude from rotation!'')))
          else
            (case rotate_regions w (LockedLaunchConfigurations autoScaleGroups) class (Retain cfg)
                    dryRun (GetRegionList w) of
               (effects, None) \<Rightarrow> (effects, Panicked)
             | (effects, Some listing_errs) \<Rightarrow>
                 if snd (joined (scheduler w) (map error_appends listing_errs)) \<noteq> [] then
                   (effects, Returned (Some (PlainError (''Error rotating snapshots for ['' @ class @ '']!''))))
                 else (effects, Returned None)))"

section \<open>Creating and deleting launch configurations and groups\<close>

text \<open>
  \<open>GetLaunchConfigurationName\<close>: the formatted name, or the empty string when the
  lookup of that name returns an error.
\<close>

definition GetLaunchConfigurationName ::
  "'a surroundings_scheme \<Rightarrow> string \<Rightarrow> string \<Rightarrow> int \<Rightarrow> string" where
  "GetLaunchConfigurationName w region class version =
     (let name = Sprintf_name class version in
      case snd (GetLaunchConfigurationsByName w region name) of
        Some err \<Rightarrow> []
      | None \<Rightarrow> name)"

text \<open>
  The loop of \<open>CreateLaunchConfigurations\<close> over \<open>cfg.Regions\<close>. The create call is
  not under a test of \<open>dryRun\<close>.
\<close>

fun create_loop ::
  "'a surroundings_scheme \<Rightarrow> InstanceClass \<Rightarrow> string \<Rightarrow> string list
     \<Rightarrow> effect list \<times> error option" where
  "create_loop w instanceCfg name [] = ([], None)"
| "create_loop w instanceCfg name (region # regions) =
     (if \<not> ValidRegion w region
      then ([], Some (PlainError (''Region ['' @ region @ ''] is not valid!'')))
      else (case region_lookups w instanceCfg region of
              Some err \<Rightarrow> ([], Some err)
            | None \<Rightarrow>
                (case mutate w (CreateLaunchConfiguration region name) of
                   Some err \<Rightarrow>
                     ([Sdk (CreateLaunchConfiguration region name)], Some (unwrap_awserr err))
                 | None \<Rightarrow>
                     (case create_loop w instanceCfg name regions of
                        (effects, r) \<Rightarrow> (Sdk (CreateLaunchConfiguration region name) # effects, r)))))"

definition CreateLaunchConfigurations ::
  "'a surroundings_scheme \<Rightarrow> string \<Rightarrow> bool \<Rightarrow> effect list \<times> outcome" where
  "CreateLaunchConfigurations w class dryRun =
     (case LoadLaunchConfigurationClass w class of
        Inl err \<Rightarrow> ([], Returned (Some err))
      | Inr cfg0 \<Rightarrow>
          (case LoadInstanceClass w (InstanceClass cfg0) of
             Inl err \<Rightarrow> ([], Returned (Some err))
           | Inr instanceCfg \<Rightarrow>
               (let cfg = Increment w class cfg0;
                    name = Sprintf_name class (Version cfg)
                in case (if IAMUser instanceCfg \<noteq> [] then GetIAMUser w (IAMUser instanceCfg) else None) of
                     Some err \<Rightarrow> ([], Returned (Some err))
                   | None \<Rightarrow>
                       (case create_loop w instanceCfg name (Regions cfg) of
                          (created, Some err) \<Rightarrow> (created, Returned (Some err))
                        | (created, None) \<Rightarrow>
                            if 1 < Retain cfg then
                              (case RotateLaunchConfigurations w class cfg dryRun of
                                 (rotated, Panicked) \<Rightarrow> (created @ rotated, Panicked)
                               | (rotated, Returned (Some err)) \<Rightarrow>
                                   (created @ rotated, Returned (Some err))
                               | (rotated, Returned None) \<Rightarrow> (created @ rotated, Returned None))
                            else (created, Returned None)))))"

text \<open>
  \<open>DeleteLaunchConfigurations\<close>: the list of one region or of all, the prompt, the
  deletion, and the unwrapping of its error.
\<close>

definition DeleteLaunchConfigurations ::
  "'a surroundings_scheme \<Rightarrow> string \<Rightarrow> string \<Rightarrow> bool \<Rightarrow> effect list \<times> outcome" where
  "DeleteLaunchConfigurations w search region dryRun =
     (case (if region \<noteq> [] then GetRegionLaunchConfigurations w region [] search
            else map_option (\<lambda>r. (None, fst r)) (GetLaunchConfigurations w search)) of
        None \<Rightarrow> ([], Panicked)
      | Some (Some err, lcList) \<Rightarrow>
          ([], Returned (Some (PlainError ''Error gathering Launch Configuration list'')))
      | Some (None, lcList) \<Rightarrow>
          if lcList = [] then ([], Returned (Some (PlainError ''No Launch Configurations found!'')))
          else if \<not> PromptBool w then ([], Returned (Some (PlainError ''Aborting!'')))
          else (case deleteLaunchConfigurations (mutate w) lcList dryRun of
                  (effects, Some err) \<Rightarrow> (effects, Returned (Some (unwrap_awserr err)))
                | (effects, None) \<Rightarrow> (effects, Returned None)))"

text \<open>\<open>deleteAutoScaleGroups\<close>: the delete call, or under \<open>dryRun\<close> the dump of its parameters.\<close>

fun deleteAutoScaleGroups ::
  "(sdk_call \<Rightarrow> error option) \<Rightarrow> AutoScaleGroup list \<Rightarrow> bool \<Rightarrow> bool \<Rightarrow> effect list \<times> error option" where
  "deleteAutoScaleGroups svc [] force dryRun = ([], None)"
| "deleteAutoScaleGroups svc (asg # asgList) force dryRun =
     (let params = DeleteAutoScalingGroup (AutoScaleGroup.Region asg) (AutoScaleGroup.Name asg) force in
      if \<not> dryRun then
        (case svc params of
           Some err \<Rightarrow> ([Sdk params], Some (unwrap_awserr err))
         | None \<Rightarrow>
             (case deleteAutoScaleGroups svc asgList force dryRun of
                (effects, r) \<Rightarrow> (Sdk params # effects, r)))
      else
        (case deleteAutoScaleGroups svc asgList force dryRun of
           (effects, r) \<Rightarrow> (ParamsPrinted params # effects, r)))"

section \<open>Addresses: CreateAddress\<close>

text \<open>
  The validation of the domain is written
  \<^verbatim>\<open>if !(domain == "vpc" || domain != "classic")\<close>
  and is kept as written. The call carries \<open>DryRun: aws.Bool(dryRun)\<close>: a dry run is left
  to the service.
\<close>

definition CreateAddress :: "'a surroundings_scheme \<Rightarrow> string \<Rightarrow> string \<Rightarrow> bool \<Rightarrow> effect list \<times> outcome" where
  "CreateAddress w region domain dryRun =
     (if \<not> ValidRegion w region
      then ([], Returned (Some (PlainError (''Region ['' @ region @ ''] is Invalid!''))))
      else if \<not> (domain = ''vpc'' \<or> domain \<noteq> ''classic'')
      then ([], Returned (Some (PlainError ''Domain should be either [vpc] or [classic].'')))
      else (case mutate w (AllocateAddress region domain dryRun) of
              Some err \<Rightarrow> ([Sdk (AllocateAddress region domain dryRun)],
                           Returned (Some (unwrap_awserr err)))
            | None \<Rightarrow> ([Sdk (AllocateAddress region domain dryRun)], Returned None)))"

section \<open>Vocabulary of the properties\<close>

text \<open>
  What a fan-out over the regions should return, in terms of the describe call alone:
  the errors of the regions whose call fails, and the rows of the regions whose call
  succeeds that a test \<open>keep\<close> retains, both in the order of the region list.
\<close>

definition region_errors :: "(string \<Rightarrow> error + 'r list) \<Rightarrow> string list \<Rightarrow> error list" where
  "region_errors describe regions =
     concat (map (\<lambda>region. case describe region of Inl err \<Rightarrow> [err] | Inr rows \<Rightarrow> []) regions)"

definition region_rows :: "(string \<Rightarrow> error + 'r list) \<Rightarrow> ('r \<Rightarrow> bool) \<Rightarrow> string list \<Rightarrow> 'r list" where
  "region_rows describe keep regions =
     concat (map (\<lambda>region. case describe region of Inl err \<Rightarrow> [] | Inr rows \<Rightarrow> filter keep rows) regions)"

text \<open>
  What a list of appends adds when nothing comes between its reads and writes.
\<close>

fun appended_rows :: "'r action list \<Rightarrow> 'r list" where
  "appended_rows [] = []"
| "appended_rows (AppendRows new # todo) = new @ appended_rows todo"
| "appended_rows (AppendErr err # todo) = appended_rows todo"

fun appended_errs :: "'r action list \<Rightarrow> error list" where
  "appended_errs [] = []"
| "appended_errs (AppendRows new # todo) = appended_errs todo"
| "appended_errs (AppendErr err # todo) = err # appended_errs todo"

text \<open>
  The error that a region listing returns is the one its goroutine appends.
\<close>

definition returned_error :: "'r action list \<Rightarrow> error option" where
  "returned_error acts = (case appended_errs acts of [] \<Rightarrow> None | err # errs \<Rightarrow> Some err)"


text \<open>
  A run of an operation (its effects and its outcome) reports the errors of its calls
  when, for every call among the effects that is relevant and that the SDK answers
  with an error, the outcome is the return of that error unwrapped.
\<close>

fun is_create :: "sdk_call \<Rightarrow> bool" where
  "is_create (CreateLaunchConfiguration region name) = True"
| "is_create call = False"

fun reported :: "(sdk_call \<Rightarrow> bool) \<Rightarrow> (sdk_call \<Rightarrow> error option) \<Rightarrow> outcome \<Rightarrow> effect \<Rightarrow> bool" where
  "reported relevant svc out (Sdk call) =
     (if relevant call
      then (case svc call of
              None \<Rightarrow> True
            | Some err \<Rightarrow> out = Returned (Some (unwrap_awserr err)))
      else True)"
| "reported relevant svc out (ParamsPrinted call) = True"

definition reports :: "(sdk_call \<Rightarrow> bool) \<Rightarrow> (sdk_call \<Rightarrow> error option) \<Rightarrow> effect list \<times> outcome \<Rightarrow> bool" where
  "reports relevant svc run = list_all (reported relevant svc (snd run)) (fst run)"

section \<open>An example of the surroundings\<close>

text \<open>
  A pattern made of letters, digits and hyphens matches exactly the strings that
  contain it; the example compiles such a pattern to that test.
\<close>

fun has_prefix :: "string \<Rightarrow> string \<Rightarrow> bool" where
  "has_prefix [] s = True"
| "has_prefix (p # ps) [] = False"
| "has_prefix (p # ps) (c # cs) = (p = c \<and> has_prefix ps cs)"

fun contains :: "string \<Rightarrow> string \<Rightarrow> bool" where
  "contains p [] = (p = [])"
| "contains p (c # cs) = (has_prefix p (c # cs) \<or> contains p cs)"

definition example_lc :: "string \<Rightarrow> int \<Rightarrow> LaunchConfig" where
  "example_lc name t =
     \<lparr>LaunchConfig.Name = name, ImageName = ''hvm-base'', ImageID = ''ami-1'',
      LaunchConfig.InstanceType = ''r3.large'', LaunchConfig.KeyName = ''awsm'',
      LaunchConfig.SecurityGroups = ''dev'', CreationTime = t, CreatedHuman = [],
      LaunchConfig.Region = ''us-east-1'', LaunchConfig.EbsOptimized = False,
      SnapshotIDs = []\<rparr>"

definition example_asg :: "string \<Rightarrow> string \<Rightarrow> AutoScaleGroup" where
  "example_asg name lc =
     \<lparr>AutoScaleGroup.Name = name, Class = ''web'', HealthCheckType = ''EC2'',
      HealthCheckGracePeriod = 0, LaunchConfig = lc, LoadBalancers = [],
      InstanceCount = 1, DesiredCapacity = 1, MinSize = 1, MaxSize = 1,
      DefaultCooldown = 0, AvailabilityZones = [], SubnetID = [], SubnetName = [],
      VpcID = [], VpcName = [], AutoScaleGroup.Region = ''us-east-1''\<rparr>"

definition example_address :: "string \<Rightarrow> string \<Rightarrow> string \<Rightarrow> Address" where
  "example_address ip instance status =
     \<lparr>AllocationID = [], PublicIP = ip, PrivateIP = [], InstanceID = instance,
      Domain = ''vpc'', NetworkInterfaceID = [], NetworkInterfaceOwnerID = [],
      Address.Region = ''us-east-1'', Status = status, Attachment = []\<rparr>"

text \<open>
  Four configurations of class \<open>web\<close> in the order the describe call lists them, the
  newest and the oldest of them in use by the groups \<open>blue\<close> and \<open>green\<close>.
\<close>

definition example_configs :: "LaunchConfig list" where
  "example_configs =
     [example_lc ''web-v4'' 4, example_lc ''web-v1'' 1, example_lc ''web-v3'' 3,
      example_lc ''web-v2'' 2]"

definition example_groups :: "AutoScaleGroup list" where
  "example_groups = [example_asg ''blue'' ''web-v4'', example_asg ''green'' ''web-v1'']"

definition example_class :: LaunchConfigurationClass where
  "example_class = \<lparr>Version = 4, InstanceClass = ''prod'', Regions = [''us-east-1''], Retain = 2\<rparr>"

definition example_instance_class :: InstanceClass where
  "example_instance_class =
     \<lparr>InstanceType = ''r3.large'', SecurityGroups = [''dev''], EBSVolumes = [], Vpc = ''awsm'',
      Subnet = ''private'', PublicIPAddress = False, AMI = ''hvm-base'', KeyName = ''awsm'',
      EbsOptimized = False, Monitoring = False, ShutdownBehavior = ''stop'', IAMUser = [],
      UserData = []\<rparr>"

text \<open>
  Two regions. In \<open>us-east-1\<close> every describe call answers, the one by name with the
  configuration of that name; in \<open>us-west-2\<close> the listing of launch configurations
  fails with an SDK error and the other listings are empty. The sort is the insertion
  sort of the list library on the negated time, the goroutines of a fan-out run one
  after the other, every mutating call succeeds, and the user confirms.
\<close>

definition example_world :: surroundings where
  "example_world =
     \<lparr>GetRegionList = [''us-east-1'', ''us-west-2''],
      GetRegionListWithoutIgnored = [''us-east-1'', ''us-west-2''],
      ValidRegion = (\<lambda>region. region = ''us-east-1'' \<or> region = ''us-west-2''),
      DescribeLaunchConfigurations =
        (\<lambda>region. if region = ''us-east-1'' then Inr (example_configs @ [example_lc ''api-v1'' 5])
                   else Inl (AwsError ''Throttling'' ''Rate exceeded'')),
      DescribeLaunchConfigurationsNamed =
        (\<lambda>region name.
           if region = ''us-east-1''
           then Inr (filter (\<lambda>lc. LaunchConfig.Name lc = name)
                       (example_configs @ [example_lc ''api-v1'' 5]))
           else Inr []),
      GetRegionSecurityGroups = (\<lambda>region. None),
      DescribeAutoScalingGroups =
        (\<lambda>region. if region = ''us-east-1'' then Inr example_groups else Inr []),
      DescribeAlarms = (\<lambda>region. Inr []),
      DescribeAddresses =
        (\<lambda>region. if region = ''us-east-1''
                   then Inr [example_address ''52.0.0.1'' ''i-1'' ''in-use'',
                             example_address ''52.0.0.2'' [] ''available'']
                   else Inr []),
      MustCompile = (\<lambda>pattern. Some (contains pattern)),
      Sort = sort_key (\<lambda>lc. - CreationTime lc),
      scheduler = [],
      PromptBool = True,
      mutate = (\<lambda>call. None),
      LoadLaunchConfigurationClass =
        (\<lambda>class. if class = ''web'' then Inr example_class
                  else Inl (PlainError ''no such class'')),
      LoadInstanceClass = (\<lambda>class. Inr example_instance_class),
      Increment = (\<lambda>class cfg. cfg\<lparr>Version := Version cfg + 1\<rparr>),
      GetIAMUser = (\<lambda>user. None),
      region_lookups = (\<lambda>instanceCfg region. None)\<rparr>"

text \<open>The same surroundings with every mutating call refused by the SDK.\<close>

definition failing_world :: surroundings where
  "failing_world =
     example_world\<lparr>mutate := (\<lambda>call. Some (AwsError ''Throttling'' ''Rate exceeded''))\<rparr>"

text \<open>
  Three regions, of which \<open>us-west-2\<close> fails and the two others list one configuration
  each, and a scheduler that lets the goroutines of the first and the third region
  both read the shared list before either writes it.
\<close>

definition racing_world :: surroundings where
  "racing_world =
     example_world
       \<lparr>GetRegionList := [''us-east-1'', ''us-west-2'', ''eu-west-1''],
        DescribeLaunchConfigurations :=
          (\<lambda>region. if region = ''us-east-1'' then Inr [example_lc ''web-v1'' 1]
                     else if region = ''us-west-2'' then Inl (AwsError ''Throttling'' ''Rate exceeded'')
                     else Inr [example_lc ''api-v1'' 5]),
        scheduler := [0, 2, 0, 2]\<rparr>"

section \<open>Properties of ParseArn\<close>

lemma SplitN_all_not_empty: "SplitN_all sep s \<noteq> []"
  by (induction s) (auto split: list.splits)

lemma ParseArn_error_iff:
  "(\<exists>e. ParseArn s = Some (Inl e)) \<longleftrightarrow> length (SplitN_all CHR '':'' s) < 6"
  by (auto simp: ParseArn_def Let_def index_def split: if_splits)

lemma ParseArn_panics_iff:
  "ParseArn s = None \<longleftrightarrow>
     (let split = SplitN_all CHR '':'' s in
      6 \<le> length split \<and> split ! 2 = ''autoscaling'' \<and>
      (split ! 5 = ''scalingPolicy'' \<and> length split < 9 \<or>
       split ! 5 = ''autoScalingGroup'' \<and> length split < 8))"
  by (auto simp: ParseArn_def Let_def index_def split: if_splits)

text \<open>
  Claim C9. \<open>ParseArn\<close> checks for six segments only, and the branch for an
  autoscaling scaling policy reads \<open>split[6]\<close>, \<open>split[7]\<close> and \<open>split[8]\<close>: on a string
  of six segments whose service is \<open>autoscaling\<close> and whose resource type is
  \<open>scalingPolicy\<close> the read of \<open>split[6]\<close> is out of range and the function panics
  instead of returning an ARN.
\<close>

theorem ParseArn_scalingPolicy_six_segments_panics:
  "length (SplitN_all CHR '':'' ''arn:aws:autoscaling:us-east-1:123456789012:scalingPolicy'') = 6
   \<and> ParseArn ''arn:aws:autoscaling:us-east-1:123456789012:scalingPolicy'' = None"
  by (simp add: ParseArn_def Let_def index_def)

section \<open>Properties of the locked identifiers\<close>

lemma store_snapshots_NilMap: "store_snapshots NilMap snaps = (if snaps = [] then Some NilMap else None)"
  by (cases snaps) simp_all

lemma LockedSnapshotIds_loop_NilMap:
  "LockedSnapshotIds_loop NilMap l =
     (if list_all (\<lambda>config. SnapshotIDs config = []) l then Some NilMap else None)"
  by (induction l) (simp_all add: store_snapshots_NilMap)

lemma LockedImageIds_Nil: "LockedImageIds [] = Some NilMap"
  by (simp add: LockedImageIds_def)

text \<open>
  Claim C8. Both functions store into the nil map \<open>ids\<close>. \<open>LockedImageIds\<close> panics on
  every list that is not empty, and \<open>LockedSnapshotIds\<close> on every list with a
  configuration that has a snapshot; neither returns the map of identifiers there.
\<close>

theorem Locked_ids_panic_on_nil_map:
  "LockedImageIds (config # l) = None
   \<and> LockedSnapshotIds (config\<lparr>SnapshotIDs := snap # snaps\<rparr> # l) = None"
  by (simp add: LockedImageIds_def LockedSnapshotIds_def)

section \<open>Properties of CreateAddress\<close>

lemma CreateAddress_domain_error_iff:
  "ValidRegion w region \<Longrightarrow>
     CreateAddress w region domain dryRun
       = ([], Returned (Some (PlainError ''Domain should be either [vpc] or [classic].'')))
     \<longleftrightarrow> domain = ''classic''"
  by (auto simp: CreateAddress_def split: option.splits)

lemma CreateAddress_allocates_iff:
  "ValidRegion w region \<Longrightarrow>
     Sdk (AllocateAddress region domain dryRun) \<in> set (fst (CreateAddress w region domain dryRun))
     \<longleftrightarrow> domain \<noteq> ''classic''"
  by (auto simp: CreateAddress_def split: option.splits)

text \<open>
  Claim C10. The test of the domain is inverted for \<open>classic\<close>: in a valid region the
  domain \<open>classic\<close> is refused with the validation error and no call is made, and a
  domain that is neither \<open>vpc\<close> nor \<open>classic\<close> (here \<open>standard\<close>) passes the validation
  and is sent to \<open>AllocateAddress\<close>.
\<close>

theorem CreateAddress_domain_check_inverted:
  "CreateAddress example_world ''us-east-1'' ''classic'' False
     = ([], Returned (Some (PlainError ''Domain should be either [vpc] or [classic].'')))
   \<and> CreateAddress example_world ''us-east-1'' ''standard'' False
     = ([Sdk (AllocateAddress ''us-east-1'' ''standard'' False)], Returned None)"
  by code_simp

section \<open>Properties of the listings\<close>

lemma search_loop_filter: "search_loop hit cs out = out @ filter hit cs"
  by (induction cs arbitrary: out) simp_all

lemma field_loop_iff: "field_loop M ss \<longleftrightarrow> (\<exists>s \<in> set ss. M s)"
  by (induction ss) auto

lemma address_field_loop_iff:
  "address_field_loop M available ad ss
     \<longleftrightarrow> (\<exists>s \<in> set ss. M s) \<and> (available \<longrightarrow> Status ad = ''available'')"
  by (induction ss) auto

lemma GetRegionLaunchConfigurations_eq:
  assumes "search = [] \<or> MustCompile w search = Some M"
  shows "GetRegionLaunchConfigurations w region lcList search =
           (case DescribeLaunchConfigurations w region of
              Inl err \<Rightarrow> Some (Some err, lcList)
            | Inr lc \<Rightarrow> Some (None, lcList @
                filter (\<lambda>c. search = [] \<or> field_loop M (reflect_LaunchConfig c)) lc))"
  using assms
  by (auto simp: GetRegionLaunchConfigurations_def search_loop_filter split: sum.split)

lemma GetRegionAutoScaleGroups_eq:
  assumes "search = [] \<or> MustCompile w search = Some M"
  shows "GetRegionAutoScaleGroups w region asgList search =
           (case DescribeAutoScalingGroups w region of
              Inl err \<Rightarrow> Some (Some err, asgList)
            | Inr asg \<Rightarrow> Some (None, asgList @
                filter (\<lambda>g. search = [] \<or> field_loop M (reflect_AutoScaleGroup g)) asg))"
  using assms
  by (auto simp: GetRegionAutoScaleGroups_def search_loop_filter split: sum.split)

lemma GetRegionAlarms_eq:
  assumes "search = [] \<or> MustCompile w search = Some M"
  shows "GetRegionAlarms w region alList search =
           (case DescribeAlarms w region of
              Inl err \<Rightarrow> Some (Some err, alList)
            | Inr al \<Rightarrow> Some (None, alList @
                filter (\<lambda>a. search = [] \<or> field_loop M (reflect_Alarm a)) al))"
  using assms
  by (auto simp: GetRegionAlarms_def search_loop_filter split: sum.split)

lemma GetRegionAddresses_eq:
  assumes "search = [] \<or> MustCompile w search = Some M"
  shows "GetRegionAddresses w region adrList search available =
           (case DescribeAddresses w region of
              Inl err \<Rightarrow> Some (Some err, adrList)
            | Inr adr \<Rightarrow> Some (None, adrList @
                filter (\<lambda>ad. search = [] \<or> address_field_loop M available ad (reflect_Address ad)) adr))"
  using assms
  by (auto simp: GetRegionAddresses_def search_loop_filter split: sum.split)

text \<open>
  Claim C5, as amended. With a search term that is not empty and compiles, the listing
  of launch configurations, of auto-scaling groups and of alarms appends exactly the
  rows of the region of which some field's reflected string matches, in their order;
  the listing of addresses appends the rows that match and, when \<open>available\<close> is
  set, have the status \<open>available\<close>. With the empty search term every listing appends
  every row of the region unchanged. A failed describe call leaves the list as it was.
\<close>

theorem region_listing_filter:
  assumes "search \<noteq> []" and "MustCompile w search = Some M"
  shows "GetRegionLaunchConfigurations w region lcList search =
           (case DescribeLaunchConfigurations w region of
              Inl err \<Rightarrow> Some (Some err, lcList)
            | Inr lc \<Rightarrow> Some (None, lcList @ filter (\<lambda>c. \<exists>s \<in> set (reflect_LaunchConfig c). M s) lc))
       \<and> GetRegionAutoScaleGroups w region asgList search =
           (case DescribeAutoScalingGroups w region of
              Inl err \<Rightarrow> Some (Some err, asgList)
            | Inr asg \<Rightarrow> Some (None, asgList @ filter (\<lambda>g. \<exists>s \<in> set (reflect_AutoScaleGroup g). M s) asg))
       \<and> GetRegionAlarms w region alList search =
           (case DescribeAlarms w region of
              Inl err \<Rightarrow> Some (Some err, alList)
            | Inr al \<Rightarrow> Some (None, alList @ filter (\<lambda>a. \<exists>s \<in> set (reflect_Alarm a). M s) al))
       \<and> GetRegionAddresses w region adrList search available =
           (case DescribeAddresses w region of
              Inl err \<Rightarrow> Some (Some err, adrList)
            | Inr adr \<Rightarrow> Some (None, adrList @
                filter (\<lambda>ad. (\<exists>s \<in> set (reflect_Address ad). M s)
                              \<and> (if available then Status ad = ''available'' else True)) adr))
       \<and> GetRegionLaunchConfigurations w region lcList [] =
           (case DescribeLaunchConfigurations w region of
              Inl err \<Rightarrow> Some (Some err, lcList) | Inr lc \<Rightarrow> Some (None, lcList @ lc))
       \<and> GetRegionAutoScaleGroups w region asgList [] =
           (case DescribeAutoScalingGroups w region of
              Inl err \<Rightarrow> Some (Some err, asgList) | Inr asg \<Rightarrow> Some (None, asgList @ asg))
       \<and> GetRegionAlarms w region alList [] =
           (case DescribeAlarms w region of
              Inl err \<Rightarrow> Some (Some err, alList) | Inr al \<Rightarrow> Some (None, alList @ al))
       \<and> GetRegionAddresses w region adrList [] available =
           (case DescribeAddresses w region of
              Inl err \<Rightarrow> Some (Some err, adrList) | Inr adr \<Rightarrow> Some (None, adrList @ adr))"
proof (intro conjI)
  have compiled: "search = [] \<or> MustCompile w search = Some M"
    using assms(2) by simp
  have address_hit: "address_field_loop M available ad ss
      \<longleftrightarrow> (\<exists>s \<in> set ss. M s) \<and> (if available then Status ad = ''available'' else True)" for ad ss
    by (simp add: address_field_loop_iff)
  show "GetRegionLaunchConfigurations w region lcList search =
           (case DescribeLaunchConfigurations w region of
              Inl err \<Rightarrow> Some (Some err, lcList)
            | Inr lc \<Rightarrow> Some (None, lcList @ filter (\<lambda>c. \<exists>s \<in> set (reflect_LaunchConfig c). M s) lc))"
    using assms(1) by (simp add: GetRegionLaunchConfigurations_eq [OF compiled] field_loop_iff split: sum.split)
  show "GetRegionAutoScaleGroups w region asgList search =
           (case DescribeAutoScalingGroups w region of
              Inl err \<Rightarrow> Some (Some err, asgList)
            | Inr asg \<Rightarrow> Some (None, asgList @ filter (\<lambda>g. \<exists>s \<in> set (reflect_AutoScaleGroup g). M s) asg))"
    using assms(1) by (simp add: GetRegionAutoScaleGroups_eq [OF compiled] field_loop_iff split: sum.split)
  show "GetRegionAlarms w region alList search =
           (case DescribeAlarms w region of
              Inl err \<Rightarrow> Some (Some err, alList)
            | Inr al \<Rightarrow> Some (None, alList @ filter (\<lambda>a. \<exists>s \<in> set (reflect_Alarm a). M s) al))"
    using assms(1) by (simp add: GetRegionAlarms_eq [OF compiled] field_loop_iff split: sum.split)
  show "GetRegionAddresses w region adrList search available =
           (case DescribeAddresses w region of
              Inl err \<Rightarrow> Some (Some err, adrList)
            | Inr adr \<Rightarrow> Some (None, adrList @
                filter (\<lambda>ad. (\<exists>s \<in> set (reflect_Address ad). M s)
                              \<and> (if available then Status ad = ''available'' else True)) adr))"
    using assms(1) by (simp add: GetRegionAddresses_eq [OF compiled] address_hit split: sum.split)
  show "GetRegionLaunchConfigurations w region lcList [] =
           (case DescribeLaunchConfigurations w region of
              Inl err \<Rightarrow> Some (Some err, lcList) | Inr lc \<Rightarrow> Some (None, lcList @ lc))"
    by (simp add: GetRegionLaunchConfigurations_def split: sum.split)
  show "GetRegionAutoScaleGroups w region asgList [] =
           (case DescribeAutoScalingGroups w region of
              Inl err \<Rightarrow> Some (Some err, asgList) | Inr asg \<Rightarrow> Some (None, asgList @ asg))"
    by (simp add: GetRegionAutoScaleGroups_def split: sum.split)
  show "GetRegionAlarms w region alList [] =
           (case DescribeAlarms w region of
              Inl err \<Rightarrow> Some (Some err, alList) | Inr al \<Rightarrow> Some (None, alList @ al))"
    by (simp add: GetRegionAlarms_def split: sum.split)
  show "GetRegionAddresses w region adrList [] available =
           (case DescribeAddresses w region of
              Inl err \<Rightarrow> Some (Some err, adrList) | Inr adr \<Rightarrow> Some (None, adrList @ adr))"
    by (simp add: GetRegionAddresses_def split: sum.split)
qed

text \<open>
  The theorem at the example: the term \<open>v1\<close> in \<open>us-east-1\<close> keeps the two
  configurations whose name contains it, and the term \<open>52\<close> keeps both addresses when
  \<open>available\<close> is not set.
\<close>

theorem region_listing_filter_witness:
  "GetRegionLaunchConfigurations example_world ''us-east-1'' [] ''v1''
     = Some (None, [example_lc ''web-v1'' 1, example_lc ''api-v1'' 5])
   \<and> GetRegionAddresses example_world ''us-east-1'' [] ''52'' False
     = Some (None, [example_address ''52.0.0.1'' ''i-1'' ''in-use'',
                    example_address ''52.0.0.2'' [] ''available''])"
proof -
  have nonempty: "''v1'' \<noteq> []" by simp
  have compiled: "MustCompile example_world ''v1'' = Some (contains ''v1'')"
    by (simp add: example_world_def)
  have described: "DescribeLaunchConfigurations example_world ''us-east-1''
      = Inr (example_configs @ [example_lc ''api-v1'' 5])"
    by (simp add: example_world_def)
  have kept: "filter (\<lambda>c. \<exists>s \<in> set (reflect_LaunchConfig c). contains ''v1'' s)
                (example_configs @ [example_lc ''api-v1'' 5])
              = [example_lc ''web-v1'' 1, example_lc ''api-v1'' 5]"
    by (simp add: example_configs_def example_lc_def reflect_LaunchConfig_def)
  note v1 = region_listing_filter [OF nonempty compiled, where region = "''us-east-1''" and lcList = "[]"]
  from v1 have "GetRegionLaunchConfigurations example_world ''us-east-1'' [] ''v1'' =
           (case DescribeLaunchConfigurations example_world ''us-east-1'' of
              Inl err \<Rightarrow> Some (Some err, [])
            | Inr lc \<Rightarrow> Some (None, [] @ filter (\<lambda>c. \<exists>s \<in> set (reflect_LaunchConfig c). contains ''v1'' s) lc))"
    by (rule conjunct1)
  then have one: "GetRegionLaunchConfigurations example_world ''us-east-1'' [] ''v1''
     = Some (None, [example_lc ''web-v1'' 1, example_lc ''api-v1'' 5])"
    by (simp only: described sum.case append_Nil kept)
  have nonempty2: "''52'' \<noteq> []" by simp
  have compiled2: "MustCompile example_world ''52'' = Some (contains ''52'')"
    by (simp add: example_world_def)
  have described2: "DescribeAddresses example_world ''us-east-1''
      = Inr [example_address ''52.0.0.1'' ''i-1'' ''in-use'',
             example_address ''52.0.0.2'' [] ''available'']"
    by (simp add: example_world_def)
  have kept2: "filter (\<lambda>ad. \<exists>s \<in> set (reflect_Address ad). contains ''52'' s)
                [example_address ''52.0.0.1'' ''i-1'' ''in-use'',
                 example_address ''52.0.0.2'' [] ''available'']
              = [example_address ''52.0.0.1'' ''i-1'' ''in-use'',
                 example_address ''52.0.0.2'' [] ''available'']"
    by (simp add: example_address_def reflect_Address_def)
  have kept2': "filter (\<lambda>ad. (\<exists>s \<in> set (reflect_Address ad). contains ''52'' s)
                            \<and> (if False then Status ad = ''available'' else True))
                [example_address ''52.0.0.1'' ''i-1'' ''in-use'',
                 example_address ''52.0.0.2'' [] ''available'']
              = [example_address ''52.0.0.1'' ''i-1'' ''in-use'',
                 example_address ''52.0.0.2'' [] ''available'']"
    using kept2 by simp
  note a52 = region_listing_filter [OF nonempty2 compiled2, where region = "''us-east-1''"
                and adrList = "[]" and available = False]
  from a52 have "GetRegionAddresses example_world ''us-east-1'' [] ''52'' False =
           (case DescribeAddresses example_world ''us-east-1'' of
              Inl err \<Rightarrow> Some (Some err, [])
            | Inr adr \<Rightarrow> Some (None, [] @
                filter (\<lambda>ad. (\<exists>s \<in> set (reflect_Address ad). contains ''52'' s)
                              \<and> (if False then Status ad = ''available'' else True)) adr))"
    by blast
  then have two: "GetRegionAddresses example_world ''us-east-1'' [] ''52'' False
     = Some (None, [example_address ''52.0.0.1'' ''i-1'' ''in-use'',
                    example_address ''52.0.0.2'' [] ''available''])"
    by (simp only: described2 sum.case append_Nil kept2')
  from one two show ?thesis by (rule conjI)
qed

text \<open>
  The claim as it was stated fails for the addresses: with \<open>available\<close> set, the
  address \<open>52.0.0.1\<close> is left out although the term \<open>52\<close> matches its field
  \<open>PublicIP\<close>, because its status is \<open>in-use\<close>.
\<close>

theorem address_listing_drops_matching_row:
  "DescribeAddresses example_world ''us-east-1''
     = Inr [example_address ''52.0.0.1'' ''i-1'' ''in-use'',
            example_address ''52.0.0.2'' [] ''available'']
   \<and> MustCompile example_world ''52'' = Some (contains ''52'')
   \<and> contains ''52'' (PublicIP (example_address ''52.0.0.1'' ''i-1'' ''in-use''))
   \<and> PublicIP (example_address ''52.0.0.1'' ''i-1'' ''in-use'')
        \<in> set (reflect_Address (example_address ''52.0.0.1'' ''i-1'' ''in-use''))
   \<and> GetRegionAddresses example_world ''us-east-1'' [] ''52'' True
     = Some (None, [example_address ''52.0.0.2'' [] ''available''])"
  by (simp add: example_world_def GetRegionAddresses_def example_address_def reflect_Address_def)

section \<open>Properties of the fan-out\<close>

text \<open>
  A region listing is the run of its appends with nothing in between: it returns the
  error it appends, and leaves the list it was given followed by the rows it appends.
\<close>

lemma appended_rows_singletons: "appended_rows (map (\<lambda>c. AppendRows [c]) rows) = rows"
  by (induction rows) simp_all

lemma appended_errs_singletons: "appended_errs (map (\<lambda>c. AppendRows [c]) rows) = []"
  by (induction rows) simp_all

lemma GetRegionLaunchConfigurations_appends_eq:
  "GetRegionLaunchConfigurations w region lcList search =
     map_option (\<lambda>acts. (returned_error acts, lcList @ appended_rows acts))
       (GetRegionLaunchConfigurations_appends w region search)"
  by (simp add: GetRegionLaunchConfigurations_def GetRegionLaunchConfigurations_appends_def
        returned_error_def search_loop_filter appended_rows_singletons appended_errs_singletons
        split: sum.split option.split)

lemma GetRegionAutoScaleGroups_appends_eq:
  "GetRegionAutoScaleGroups w region asgList search =
     map_option (\<lambda>acts. (returned_error acts, asgList @ appended_rows acts))
       (GetRegionAutoScaleGroups_appends w region search)"
  by (simp add: GetRegionAutoScaleGroups_def GetRegionAutoScaleGroups_appends_def
        returned_error_def search_loop_filter appended_rows_singletons appended_errs_singletons
        split: sum.split option.split)

lemma GetRegionAlarms_appends_eq:
  "GetRegionAlarms w region alList search =
     map_option (\<lambda>acts. (returned_error acts, alList @ appended_rows acts))
       (GetRegionAlarms_appends w region search)"
  by (simp add: GetRegionAlarms_def GetRegionAlarms_appends_def
        returned_error_def search_loop_filter appended_rows_singletons appended_errs_singletons
        split: sum.split option.split)

lemma GetRegionAddresses_appends_eq:
  "GetRegionAddresses w region adrList search available =
     map_option (\<lambda>acts. (returned_error acts, adrList @ appended_rows acts))
       (GetRegionAddresses_appends w region search available)"
  by (simp add: GetRegionAddresses_def GetRegionAddresses_appends_def
        returned_error_def search_loop_filter appended_rows_singletons appended_errs_singletons
        split: sum.split option.split)

lemma step_twice:
  assumes "i < length gs" and "gs ! i = (Idle, a # todo)"
  shows "step i (step i ((rows, errs), gs)) =
           ((rows @ appended_rows [a], errs @ appended_errs [a]), gs[i := (Idle, todo)])"
  using assms by (cases a) (simp_all add: step_def)

lemma run_alone:
  assumes "i < length gs" and "gs ! i = (Idle, todo)"
  shows "fold step (replicate (2 * length todo) i) ((rows, errs), gs) =
           ((rows @ appended_rows todo, errs @ appended_errs todo), gs[i := (Idle, [])])"
  using assms
proof (induction todo arbitrary: rows errs gs)
  case Nil
  then have "gs[i := (Idle, [])] = gs"
    by (metis list_update_id)
  then show ?case by simp
next
  case (Cons a todo)
  have two: "replicate (2 * length (a # todo)) i = i # i # replicate (2 * length todo) i"
    by simp
  have after: "step i (step i ((rows, errs), gs)) =
           ((rows @ appended_rows [a], errs @ appended_errs [a]), gs[i := (Idle, todo)])"
    using Cons.prems by (rule step_twice)
  have next_len: "i < length (gs[i := (Idle, todo)])"
    using Cons.prems(1) by simp
  have next_at: "gs[i := (Idle, todo)] ! i = (Idle, todo)"
    using Cons.prems(1) by simp
  have rows_errs: "appended_rows (a # todo) = appended_rows [a] @ appended_rows todo"
      "appended_errs (a # todo) = appended_errs [a] @ appended_errs todo"
    by (cases a; simp)+
  show ?case
    unfolding two
    by (simp add: after Cons.IH [OF next_len next_at] rows_errs
          del: replicate.simps mult_Suc_right fold_replicate)
qed

lemma run_in_turn:
  assumes "length gs = length acts"
    and "\<And>j. k \<le> j \<Longrightarrow> j < length acts \<Longrightarrow> gs ! j = (Idle, acts ! j)"
    and "k \<le> length acts"
  shows "fst (fold step (concat (map (\<lambda>i. replicate (2 * length (acts ! i)) i) [k..<length acts]))
                ((rows, errs), gs)) =
           (rows @ concat (map appended_rows (drop k acts)),
            errs @ concat (map appended_errs (drop k acts)))"
  using assms
proof (induction "length acts - k" arbitrary: k rows errs gs)
  case 0
  then show ?case by simp
next
  case (Suc d)
  then have k: "k < length acts" by simp
  then have upt: "[k..<length acts] = k # [Suc k..<length acts]"
    by (simp add: upt_rec)
  have at: "gs ! k = (Idle, acts ! k)"
    using Suc.prems(2) [of k] k by simp
  have klen: "k < length gs"
    using k Suc.prems(1) by simp
  have alone: "fold step (replicate (2 * length (acts ! k)) k) ((rows, errs), gs) =
      ((rows @ appended_rows (acts ! k), errs @ appended_errs (acts ! k)), gs[k := (Idle, [])])"
    using klen at by (rule run_alone)
  have d: "d = length acts - Suc k"
    using Suc.hyps(2) by simp
  have len': "length (gs[k := (Idle, [])]) = length acts"
    using Suc.prems(1) by simp
  have rest: "gs[k := (Idle, [])] ! j = (Idle, acts ! j)" if "Suc k \<le> j" "j < length acts" for j
    using that Suc.prems(2) [of j] by simp
  have le: "Suc k \<le> length acts"
    using k by simp
  have dropk: "drop k acts = acts ! k # drop (Suc k) acts"
    using k by (simp add: Cons_nth_drop_Suc)
  show ?case
    unfolding upt
    by (simp add: alone Suc.hyps(1) [OF d len' rest le] dropk del: fold_replicate)
qed

lemma joined_in_turn:
  "joined [] acts = (concat (map appended_rows acts), concat (map appended_errs acts))"
proof -
  have "fst (fold step (concat (map (\<lambda>i. replicate (2 * length (acts ! i)) i) [0..<length acts]))
                (([], []), map (Pair Idle) acts)) =
           ([] @ concat (map appended_rows (drop 0 acts)),
            [] @ concat (map appended_errs (drop 0 acts)))"
    by (rule run_in_turn) simp_all
  then show ?thesis
    by (simp add: joined_def completion_def)
qed

text \<open>
  When the goroutines run one after the other (the empty schedule, completed in the
  order of the region list), the fan-out returns the rows of every region whose call
  succeeds and the error of every region whose call fails.
\<close>

lemma fan_out_in_turn:
  "fan_out [] tasks =
     map_option (\<lambda>acts. (concat (map appended_rows acts), concat (map appended_errs acts)))
       (all_some tasks)"
  by (cases "all_some tasks") (simp_all add: fan_out_def joined_in_turn)

lemma fan_out_in_turn_describe:
  assumes "\<And>region. \<exists>acts. task region = Some acts
              \<and> appended_rows acts = (case describe region of Inl err \<Rightarrow> [] | Inr rows \<Rightarrow> filter keep rows)
              \<and> appended_errs acts = (case describe region of Inl err \<Rightarrow> [err] | Inr rows \<Rightarrow> [])"
  shows "fan_out [] (map task regions) =
           Some (region_rows describe keep regions, region_errors describe regions)"
proof -
  have "\<exists>acts. all_some (map task regions) = Some acts
          \<and> concat (map appended_rows acts) = region_rows describe keep regions
          \<and> concat (map appended_errs acts) = region_errors describe regions"
  proof (induction regions)
    case Nil
    show ?case by (simp add: region_rows_def region_errors_def)
  next
    case (Cons region regions)
    from assms [of region] obtain a where a: "task region = Some a"
      "appended_rows a = (case describe region of Inl err \<Rightarrow> [] | Inr rows \<Rightarrow> filter keep rows)"
      "appended_errs a = (case describe region of Inl err \<Rightarrow> [err] | Inr rows \<Rightarrow> [])"
      by blast
    from Cons.IH obtain acts where acts: "all_some (map task regions) = Some acts"
      "concat (map appended_rows acts) = region_rows describe keep regions"
      "concat (map appended_errs acts) = region_errors describe regions"
      by blast
    have "all_some (map task (region # regions)) = Some (a # acts)"
      by (simp add: a(1) acts(1))
    moreover have "concat (map appended_rows (a # acts)) = region_rows describe keep (region # regions)"
      using a(2) acts(2) by (simp add: region_rows_def)
    moreover have "concat (map appended_errs (a # acts)) = region_errors describe (region # regions)"
      using a(3) acts(3) by (simp add: region_errors_def)
    ultimately show ?case by blast
  qed
  then show ?thesis
    by (auto simp: fan_out_in_turn)
qed

lemma fan_out_in_turn_collects:
  assumes "search = [] \<or> MustCompile w search = Some M" and "scheduler w = []"
  shows "GetLaunchConfigurations w search =
           Some (region_rows (DescribeLaunchConfigurations w)
                   (\<lambda>c. search = [] \<or> field_loop M (reflect_LaunchConfig c)) (GetRegionList w),
                 region_errors (DescribeLaunchConfigurations w) (GetRegionList w))"
    and "GetAutoScaleGroups w search =
           Some (region_rows (DescribeAutoScalingGroups w)
                   (\<lambda>g. search = [] \<or> field_loop M (reflect_AutoScaleGroup g))
                   (GetRegionListWithoutIgnored w),
                 region_errors (DescribeAutoScalingGroups w) (GetRegionListWithoutIgnored w))"
    and "GetAlarms w search =
           Some (region_rows (DescribeAlarms w)
                   (\<lambda>a. search = [] \<or> field_loop M (reflect_Alarm a))
                   (GetRegionListWithoutIgnored w),
                 region_errors (DescribeAlarms w) (GetRegionListWithoutIgnored w))"
    and "GetAddresses w search available =
           Some (region_rows (DescribeAddresses w)
                   (\<lambda>ad. search = [] \<or> address_field_loop M available ad (reflect_Address ad))
                   (GetRegionList w),
                 region_errors (DescribeAddresses w) (GetRegionList w))"
proof -
  show "GetLaunchConfigurations w search =
           Some (region_rows (DescribeLaunchConfigurations w)
                   (\<lambda>c. search = [] \<or> field_loop M (reflect_LaunchConfig c)) (GetRegionList w),
                 region_errors (DescribeLaunchConfigurations w) (GetRegionList w))"
    unfolding GetLaunchConfigurations_def assms(2)
    apply (rule fan_out_in_turn_describe)
    using assms(1)
    apply (auto simp: GetRegionLaunchConfigurations_appends_def
             appended_rows_singletons appended_errs_singletons split: sum.split)
    done
  show "GetAutoScaleGroups w search =
           Some (region_rows (DescribeAutoScalingGroups w)
                   (\<lambda>g. search = [] \<or> field_loop M (reflect_AutoScaleGroup g))
                   (GetRegionListWithoutIgnored w),
                 region_errors (DescribeAutoScalingGroups w) (GetRegionListWithoutIgnored w))"
    unfolding GetAutoScaleGroups_def assms(2)
    apply (rule fan_out_in_turn_describe)
    using assms(1)
    apply (auto simp: GetRegionAutoScaleGroups_appends_def
             appended_rows_singletons appended_errs_singletons split: sum.split)
    done
  show "GetAlarms w search =
           Some (region_rows (DescribeAlarms w)
                   (\<lambda>a. search = [] \<or> field_loop M (reflect_Alarm a))
                   (GetRegionListWithoutIgnored w),
                 region_errors (DescribeAlarms w) (GetRegionListWithoutIgnored w))"
    unfolding GetAlarms_def assms(2)
    apply (rule fan_out_in_turn_describe)
    using assms(1)
    apply (auto simp: GetRegionAlarms_appends_def
             appended_rows_singletons appended_errs_singletons split: sum.split)
    done
  show "GetAddresses w search available =
           Some (region_rows (DescribeAddresses w)
                   (\<lambda>ad. search = [] \<or> address_field_loop M available ad (reflect_Address ad))
                   (GetRegionList w),
                 region_errors (DescribeAddresses w) (GetRegionList w))"
    unfolding GetAddresses_def assms(2)
    apply (rule fan_out_in_turn_describe)
    using assms(1)
    apply (auto simp: GetRegionAddresses_appends_def
             appended_rows_singletons appended_errs_singletons split: sum.split)
    done
qed

text \<open>
  Claim C4. The goroutines append to the shared list and to the shared \<open>errs\<close> with no
  lock. Of three regions the second fails and the two others list one configuration
  each; the goroutines of the first and the third both read the empty list, the first
  writes its row, and the third then writes the list it had read with its own row
  appended. The result holds the error and the row of the third region, and the row
  of the first region is lost, although no call of that region failed. Run one after
  the other, the same goroutines return both rows.
\<close>

theorem fan_out_loses_rows:
  "DescribeLaunchConfigurations racing_world ''us-east-1'' = Inr [example_lc ''web-v1'' 1]
   \<and> DescribeLaunchConfigurations racing_world ''us-west-2''
       = Inl (AwsError ''Throttling'' ''Rate exceeded'')
   \<and> DescribeLaunchConfigurations racing_world ''eu-west-1'' = Inr [example_lc ''api-v1'' 5]
   \<and> GetLaunchConfigurations racing_world []
       = Some ([example_lc ''api-v1'' 5], [AwsError ''Throttling'' ''Rate exceeded''])
   \<and> GetLaunchConfigurations (racing_world\<lparr>scheduler := []\<rparr>) []
       = Some ([example_lc ''web-v1'' 1, example_lc ''api-v1'' 5],
               [AwsError ''Throttling'' ''Rate exceeded''])"
  by code_simp

section \<open>Properties of the rotation\<close>






lemma exclude_loop_unlocked:
  assumes "\<And>i. i \<in> set is \<Longrightarrow> \<not> map_read excludedConfigs (LaunchConfig.Name (fst s ! i))"
  shows "exclude_loop excludedConfigs is s = Some s"
  using assms by (induction "is") simp_all

lemma RotateRegion_unlocked:
  assumes "list_all (\<lambda>lc. \<not> map_read excludedConfigs (LaunchConfig.Name lc)) launchConfigs"
    and "0 \<le> retain"
  shows "RotateRegion srt excludedConfigs retain launchConfigs
           = Some (rotation_rule srt excludedConfigs retain launchConfigs)"
proof -
  have free: "\<not> map_read excludedConfigs (LaunchConfig.Name lc)" if "lc \<in> set launchConfigs" for lc
    using assms(1) that by (simp add: list_all_iff)
  have "exclude_loop excludedConfigs [0..<length launchConfigs] (launchConfigs, length launchConfigs)
          = Some (launchConfigs, length launchConfigs)"
    by (rule exclude_loop_unlocked) (simp add: free)
  moreover have "filter (\<lambda>lc. \<not> map_read excludedConfigs (LaunchConfig.Name lc)) launchConfigs
          = launchConfigs"
    using free by (simp add: filter_id_conv)
  ultimately show ?thesis
    using assms(2) by (simp add: RotateRegion_def rotation_rule_def slice_elems_def)
qed




lemma deleteLaunchConfigurations_effects:
  "eff \<in> set (fst (deleteLaunchConfigurations svc lcList dryRun))
     \<Longrightarrow> \<exists>lc \<in> set lcList.
           eff = Sdk (DeleteLaunchConfiguration (LaunchConfig.Region lc) (LaunchConfig.Name lc))"
  by (induction lcList) (auto split: if_splits option.splits prod.splits)

lemma rotate_regions_deleted:
  "eff \<in> set (fst (rotate_regions w excludedConfigs class retain dryRun regions))
     \<Longrightarrow> \<exists>region ds lc.
           RotateRegion (Sort w) excludedConfigs retain
             (fst (GetLaunchConfigurationsByName w region class)) = Some ds
           \<and> lc \<in> set ds
           \<and> eff = Sdk (DeleteLaunchConfiguration (LaunchConfig.Region lc) (LaunchConfig.Name lc))"
proof (induction regions)
  case Nil
  then show ?case by simp
next
  case (Cons region regions)
  obtain launchConfigs err where named:
      "GetLaunchConfigurationsByName w region class = (launchConfigs, err)"
    by (cases "GetLaunchConfigurationsByName w region class")
  obtain effects errs where rest:
      "rotate_regions w excludedConfigs class retain dryRun regions = (effects, errs)"
    by (cases "rotate_regions w excludedConfigs class retain dryRun regions")
  show ?case
  proof (cases "RotateRegion (Sort w) excludedConfigs retain launchConfigs")
    case None
    with Cons.prems named show ?thesis by simp
  next
    case (Some ds)
    with Cons.prems named rest
    consider "eff \<in> set (fst (deleteLaunchConfigurations (mutate w) ds dryRun))" | "eff \<in> set effects"
      by auto
    then show ?thesis
    proof cases
      case 1
      then obtain lc where "lc \<in> set ds"
          "eff = Sdk (DeleteLaunchConfiguration (LaunchConfig.Region lc) (LaunchConfig.Name lc))"
        using deleteLaunchConfigurations_effects by blast
      moreover have "fst (GetLaunchConfigurationsByName w region class) = launchConfigs"
        using named by simp
      ultimately show ?thesis
        using Some by blast
    next
      case 2
      with rest Cons.IH show ?thesis by simp
    qed
  qed
qed









text \<open>
  The bound on the answer matters. On a list of several configurations, which a
  request by one name does not give, the loop shortens the slice it ranges over and
  never tests the entry that follows a removed one: \<open>web-v1\<close>, in use, follows
  \<open>web-v4\<close>, stays in the list and is passed on, where the rule deletes nothing.
\<close>

lemma exclusion_loop_skips_after_removal:
  "RotateRegion (sort_key (\<lambda>lc. - CreationTime lc)) (LockedLaunchConfigurations example_groups) 2
     example_configs = Some [example_lc ''web-v1'' 1]
   \<and> rotation_rule (sort_key (\<lambda>lc. - CreationTime lc)) (LockedLaunchConfigurations example_groups) 2
     example_configs = []"
  by code_simp

section \<open>Properties of the names\<close>

lemma digit_value_digit: "d < 10 \<Longrightarrow> digit_value (digit d) = d"
proof -
  assume "d < 10"
  then have "d = 0 \<or> d = 1 \<or> d = 2 \<or> d = 3 \<or> d = 4 \<or> d = 5 \<or> d = 6 \<or> d = 7 \<or> d = 8 \<or> d = 9"
    by arith
  then show ?thesis
    by (elim disjE) (simp_all add: digit_def digit_value_def)
qed

lemma digit_is_digit: "d < 10 \<Longrightarrow> digit d \<in> set ''0123456789''"
proof -
  assume "d < 10"
  then have "d = 0 \<or> d = 1 \<or> d = 2 \<or> d = 3 \<or> d = 4 \<or> d = 5 \<or> d = 6 \<or> d = 7 \<or> d = 8 \<or> d = 9"
    by arith
  then show ?thesis
    by (elim disjE) (simp_all add: digit_def)
qed

lemma decimal_value_snoc: "decimal_value (ds @ [c]) = 10 * decimal_value ds + digit_value c"
  by (simp add: decimal_value_def)

lemma decimal_value_FormatUint: "decimal_value (FormatUint n) = n"
proof (induction n rule: FormatUint.induct)
  case (1 n)
  show ?case
  proof (cases "n < 10")
    case True
    then show ?thesis
      by (subst FormatUint.simps) (simp add: decimal_value_def digit_value_digit)
  next
    case False
    then have "decimal_value (FormatUint (n div 10)) = n div 10"
      using "1.IH" by simp
    with False show ?thesis
      by (subst FormatUint.simps) (simp add: decimal_value_snoc digit_value_digit)
  qed
qed

lemma FormatUint_digits: "set (FormatUint n) \<subseteq> set ''0123456789''"
proof (induction n rule: FormatUint.induct)
  case (1 n)
  show ?case
  proof (cases "n < 10")
    case True
    then show ?thesis
      using digit_is_digit [of n] by (subst FormatUint.simps) simp
  next
    case False
    then have "set (FormatUint (n div 10)) \<subseteq> set ''0123456789''"
      using "1.IH" by simp
    moreover have "digit (n mod 10) \<in> set ''0123456789''"
      by (rule digit_is_digit) simp
    ultimately show ?thesis
      using False by (subst FormatUint.simps) simp
  qed
qed

lemma create_loop_effects:
  "eff \<in> set (fst (create_loop w instanceCfg name regions))
     \<Longrightarrow> \<exists>region \<in> set regions. eff = Sdk (CreateLaunchConfiguration region name)"
  by (induction regions) (auto split: if_splits option.splits prod.splits)

lemma create_loop_effects_pair:
  "create_loop w instanceCfg name regions = (effects, r) \<Longrightarrow> eff \<in> set effects
     \<Longrightarrow> \<exists>region \<in> set regions. eff = Sdk (CreateLaunchConfiguration region name)"
  using create_loop_effects [of eff w instanceCfg name regions] by simp

lemma rotate_regions_effects:
  "eff \<in> set (fst (rotate_regions w excludedConfigs class retain dryRun regions))
     \<Longrightarrow> \<exists>region name. eff = Sdk (DeleteLaunchConfiguration region name)"
  using rotate_regions_deleted [of eff w excludedConfigs "class" retain dryRun regions] by blast

lemma rotate_regions_effects_pair:
  "rotate_regions w excludedConfigs class retain dryRun regions = (effects, errs)
     \<Longrightarrow> eff \<in> set effects
     \<Longrightarrow> \<exists>region name. eff = Sdk (DeleteLaunchConfiguration region name)"
  using rotate_regions_effects [of eff w excludedConfigs "class" retain dryRun regions] by simp

lemma RotateLaunchConfigurations_effects:
  "eff \<in> set (fst (RotateLaunchConfigurations w class cfg dryRun))
     \<Longrightarrow> \<exists>region name. eff = Sdk (DeleteLaunchConfiguration region name)"
  by (auto simp: RotateLaunchConfigurations_def
           split: option.splits prod.splits if_splits dest: rotate_regions_effects_pair)

lemma RotateLaunchConfigurations_effects_pair:
  "RotateLaunchConfigurations w class cfg dryRun = (effects, out) \<Longrightarrow> eff \<in> set effects
     \<Longrightarrow> \<exists>region name. eff = Sdk (DeleteLaunchConfiguration region name)"
  using RotateLaunchConfigurations_effects [of eff w "class" cfg dryRun] by simp

lemma CreateLaunchConfigurations_created_name:
  assumes "LoadLaunchConfigurationClass w class = Inr cfg0"
    and "Sdk (CreateLaunchConfiguration region name) \<in> set (fst (CreateLaunchConfigurations w class dryRun))"
  shows "name = Sprintf_name class (Version (Increment w class cfg0))"
  using assms
  by (auto simp: CreateLaunchConfigurations_def Let_def
           split: sum.splits option.splits prod.splits if_splits outcome.splits
           dest: create_loop_effects_pair RotateLaunchConfigurations_effects_pair)

text \<open>
  Claim C6. Every create call of \<open>CreateLaunchConfigurations\<close> names the configuration by
  the class, then \<open>-v\<close>, then the version that \<open>cfg.Increment(class)\<close> left in the class,
  written in decimal. \<open>GetLaunchConfigurationName\<close> returns the class, \<open>-v\<close> and the
  given version in decimal whenever its lookup of that name returns no error, and the
  empty string when the lookup returns one (the describe call fails, or it finds the
  configuration and \<open>GetRegionSecurityGroups\<close> fails). The decimal writing of a number
  is a string of digits that denotes it, with a minus sign before it for a negative
  one.
\<close>

theorem launch_configuration_names:
  assumes "LoadLaunchConfigurationClass w class = Inr cfg0"
    and "Sdk (CreateLaunchConfiguration region name) \<in> set (fst (CreateLaunchConfigurations w class dryRun))"
  shows "name = class @ ''-v'' @ Sprintf_d (Version (Increment w class cfg0))
       \<and> GetLaunchConfigurationName w region' class' version =
           (case DescribeLaunchConfigurationsNamed w region' (class' @ ''-v'' @ Sprintf_d version) of
              Inl err \<Rightarrow> []
            | Inr lcList \<Rightarrow>
                if lcList = [] then class' @ ''-v'' @ Sprintf_d version
                else (case GetRegionSecurityGroups w region' of
                        Some err \<Rightarrow> []
                      | None \<Rightarrow> class' @ ''-v'' @ Sprintf_d version))
       \<and> Sprintf_d (int n) = FormatUint n
       \<and> Sprintf_d (- int (Suc n)) = CHR ''-'' # FormatUint (Suc n)
       \<and> decimal_value (FormatUint n) = n
       \<and> set (FormatUint n) \<subseteq> set ''0123456789''"
proof (intro conjI)
  show "name = class @ ''-v'' @ Sprintf_d (Version (Increment w class cfg0))"
    using CreateLaunchConfigurations_created_name [OF assms] by (simp add: Sprintf_name_def)
  show "GetLaunchConfigurationName w region' class' version =
           (case DescribeLaunchConfigurationsNamed w region' (class' @ ''-v'' @ Sprintf_d version) of
              Inl err \<Rightarrow> []
            | Inr lcList \<Rightarrow>
                if lcList = [] then class' @ ''-v'' @ Sprintf_d version
                else (case GetRegionSecurityGroups w region' of
                        Some err \<Rightarrow> []
                      | None \<Rightarrow> class' @ ''-v'' @ Sprintf_d version))"
    by (simp add: GetLaunchConfigurationName_def GetLaunchConfigurationsByName_def
          Sprintf_name_def Let_def split: sum.split option.split)
  show "Sprintf_d (int n) = FormatUint n"
    by (simp add: Sprintf_d_def)
  have "nat (int n + 1) = Suc n"
    by simp
  then show "Sprintf_d (- int (Suc n)) = CHR ''-'' # FormatUint (Suc n)"
    by (simp add: Sprintf_d_def)
  show "decimal_value (FormatUint n) = n"
    by (rule decimal_value_FormatUint)
  show "set (FormatUint n) \<subseteq> set ''0123456789''"
    by (rule FormatUint_digits)
qed

text \<open>
  The theorem at the example: the stored version 4 becomes 5 and the configuration is
  created as \<open>web-v5\<close>; the name of version 4 resolves to \<open>web-v4\<close>, and to the empty
  string when the describe call fails.
\<close>

theorem launch_configuration_names_witness:
  "fst (CreateLaunchConfigurations example_world ''web'' False)
     = [Sdk (CreateLaunchConfiguration ''us-east-1'' ''web-v5'')]
   \<and> ''web-v5'' = ''web'' @ ''-v'' @ Sprintf_d (Version (Increment example_world ''web'' example_class))
   \<and> Version (Increment example_world ''web'' example_class) = 5
   \<and> GetLaunchConfigurationName example_world ''us-east-1'' ''web'' 4 = ''web-v4''
   \<and> GetLaunchConfigurationName
        (example_world\<lparr>DescribeLaunchConfigurationsNamed :=
           (\<lambda>region name. Inl (AwsError ''Throttling'' ''Rate exceeded''))\<rparr>)
        ''us-east-1'' ''web'' 4 = []"
proof -
  have loaded: "LoadLaunchConfigurationClass example_world ''web'' = Inr example_class"
    by (simp add: example_world_def)
  have run: "fst (CreateLaunchConfigurations example_world ''web'' False)
     = [Sdk (CreateLaunchConfiguration ''us-east-1'' ''web-v5'')]"
    by code_simp
  then have created: "Sdk (CreateLaunchConfiguration ''us-east-1'' ''web-v5'')
      \<in> set (fst (CreateLaunchConfigurations example_world ''web'' False))"
    by simp
  have version: "Version (Increment example_world ''web'' example_class) = 5"
    by (simp add: example_world_def example_class_def)
  note names = launch_configuration_names [OF loaded created]
  from names
  have made: "''web-v5'' = ''web'' @ ''-v'' @ Sprintf_d (Version (Increment example_world ''web'' example_class))"
    by (rule conjunct1)
  have found: "(case DescribeLaunchConfigurationsNamed example_world ''us-east-1''
                       (''web'' @ ''-v'' @ Sprintf_d 4) of
              Inl err \<Rightarrow> []
            | Inr lcList \<Rightarrow>
                if lcList = [] then ''web'' @ ''-v'' @ Sprintf_d 4
                else (case GetRegionSecurityGroups example_world ''us-east-1'' of
                        Some err \<Rightarrow> []
                      | None \<Rightarrow> ''web'' @ ''-v'' @ Sprintf_d 4)) = ''web-v4''"
    by code_simp
  from names [of "''us-east-1''" "''web''" 4]
  have "GetLaunchConfigurationName example_world ''us-east-1'' ''web'' 4 =
          (case DescribeLaunchConfigurationsNamed example_world ''us-east-1''
                       (''web'' @ ''-v'' @ Sprintf_d 4) of
              Inl err \<Rightarrow> []
            | Inr lcList \<Rightarrow>
                if lcList = [] then ''web'' @ ''-v'' @ Sprintf_d 4
                else (case GetRegionSecurityGroups example_world ''us-east-1'' of
                        Some err \<Rightarrow> []
                      | None \<Rightarrow> ''web'' @ ''-v'' @ Sprintf_d 4))"
    by blast
  then have resolved: "GetLaunchConfigurationName example_world ''us-east-1'' ''web'' 4 = ''web-v4''"
    unfolding found .
  have refused: "GetLaunchConfigurationName
        (example_world\<lparr>DescribeLaunchConfigurationsNamed :=
           (\<lambda>region name. Inl (AwsError ''Throttling'' ''Rate exceeded''))\<rparr>)
        ''us-east-1'' ''web'' 4 = []"
    by code_simp
  from run made version resolved refused show ?thesis by blast
qed

section \<open>Properties of the dry run\<close>

lemma deleteLaunchConfigurations_dryRun:
  "deleteLaunchConfigurations svc lcList True = ([], None)"
  by (induction lcList) simp_all

lemma deleteAutoScaleGroups_dryRun:
  "deleteAutoScaleGroups svc asgList force True =
     (map (\<lambda>asg. ParamsPrinted (DeleteAutoScalingGroup (AutoScaleGroup.Region asg)
                                   (AutoScaleGroup.Name asg) force)) asgList, None)"
  by (induction asgList) (simp_all add: Let_def)

lemma rotate_regions_dryRun:
  "fst (rotate_regions w excludedConfigs class retain True regions) = []"
proof (induction regions)
  case Nil
  show ?case by simp
next
  case (Cons region regions)
  obtain launchConfigs err where named:
      "GetLaunchConfigurationsByName w region class = (launchConfigs, err)"
    by (cases "GetLaunchConfigurationsByName w region class")
  obtain effects errs where rest:
      "rotate_regions w excludedConfigs class retain True regions = (effects, errs)"
    by (cases "rotate_regions w excludedConfigs class retain True regions")
  with Cons.IH have "effects = []" by simp
  with named rest show ?case
    by (cases "RotateRegion (Sort w) excludedConfigs retain launchConfigs")
       (simp_all add: deleteLaunchConfigurations_dryRun)
qed

text \<open>
  Claim C3. \<open>CreateLaunchConfigurations\<close> passes \<open>dryRun\<close> to the rotation only: with
  \<open>dryRun\<close> set it still issues the create call.
\<close>

theorem CreateLaunchConfigurations_ignores_dryRun:
  "CreateLaunchConfigurations example_world ''web'' True
     = ([Sdk (CreateLaunchConfiguration ''us-east-1'' ''web-v5'')], Returned None)"
  by code_simp

section \<open>Properties of the error handling\<close>

lemma reported_iff:
  "reported relevant svc out eff \<longleftrightarrow>
     (\<forall>call err. eff = Sdk call \<longrightarrow> relevant call \<longrightarrow> svc call = Some err
        \<longrightarrow> out = Returned (Some (unwrap_awserr err)))"
  by (cases eff) (simp_all split: option.split)

lemma reports_iff:
  "reports relevant svc (effects, out) \<longleftrightarrow>
     (\<forall>call err. Sdk call \<in> set effects \<longrightarrow> relevant call \<longrightarrow> svc call = Some err
        \<longrightarrow> out = Returned (Some (unwrap_awserr err)))"
  unfolding reports_def list_all_iff reported_iff by auto

lemma deleteLaunchConfigurations_failed_fst:
  "Sdk call \<in> set (fst (deleteLaunchConfigurations svc lcList dryRun)) \<Longrightarrow> svc call = Some err
     \<Longrightarrow> snd (deleteLaunchConfigurations svc lcList dryRun) = Some err"
  by (induction lcList) (auto split: option.splits prod.splits if_splits)

lemma deleteLaunchConfigurations_failed:
  "deleteLaunchConfigurations svc lcList dryRun = (effects, r) \<Longrightarrow> Sdk call \<in> set effects
     \<Longrightarrow> svc call = Some err \<Longrightarrow> r = Some err"
  using deleteLaunchConfigurations_failed_fst [of call svc lcList dryRun err] by simp

lemma deleteAutoScaleGroups_failed_fst:
  "Sdk call \<in> set (fst (deleteAutoScaleGroups svc asgList force dryRun)) \<Longrightarrow> svc call = Some err
     \<Longrightarrow> snd (deleteAutoScaleGroups svc asgList force dryRun) = Some (unwrap_awserr err)"
  by (induction asgList) (auto simp: Let_def split: option.splits prod.splits if_splits)

lemma deleteAutoScaleGroups_failed:
  "deleteAutoScaleGroups svc asgList force dryRun = (effects, r) \<Longrightarrow> Sdk call \<in> set effects
     \<Longrightarrow> svc call = Some err \<Longrightarrow> r = Some (unwrap_awserr err)"
  using deleteAutoScaleGroups_failed_fst [of call svc asgList force dryRun err] by simp

lemma create_loop_failed_fst:
  "Sdk call \<in> set (fst (create_loop w instanceCfg name regions)) \<Longrightarrow> mutate w call = Some err
     \<Longrightarrow> snd (create_loop w instanceCfg name regions) = Some (unwrap_awserr err)"
  by (induction regions) (auto split: option.splits prod.splits if_splits)

lemma create_loop_failed:
  "create_loop w instanceCfg name regions = (effects, r) \<Longrightarrow> Sdk call \<in> set effects
     \<Longrightarrow> mutate w call = Some err \<Longrightarrow> r = Some (unwrap_awserr err)"
  using create_loop_failed_fst [of call w instanceCfg name regions err] by simp

lemma reports_Nil: "reports relevant svc ([], out)"
  by (simp add: reports_def)

lemma DeleteLaunchConfigurations_reports:
  "reports (\<lambda>call. True) (mutate w) (DeleteLaunchConfigurations w search region dryRun)"
proof -
  define listing where "listing =
    (if region \<noteq> [] then GetRegionLaunchConfigurations w region [] search
     else map_option (\<lambda>r. (None, fst r)) (GetLaunchConfigurations w search))"
  have unfold: "DeleteLaunchConfigurations w search region dryRun =
     (case listing of
        None \<Rightarrow> ([], Panicked)
      | Some (Some err, lcList) \<Rightarrow>
          ([], Returned (Some (PlainError ''Error gathering Launch Configuration list'')))
      | Some (None, lcList) \<Rightarrow>
          if lcList = [] then ([], Returned (Some (PlainError ''No Launch Configurations found!'')))
          else if \<not> PromptBool w then ([], Returned (Some (PlainError ''Aborting!'')))
          else (case deleteLaunchConfigurations (mutate w) lcList dryRun of
                  (effects, Some err) \<Rightarrow> (effects, Returned (Some (unwrap_awserr err)))
                | (effects, None) \<Rightarrow> (effects, Returned None)))"
    unfolding DeleteLaunchConfigurations_def listing_def by (rule refl)
  show ?thesis
  proof (cases listing)
    case None
    then show ?thesis by (simp add: unfold reports_Nil)
  next
    case (Some found)
    obtain e lcList where found: "found = (e, lcList)" by (cases found)
    show ?thesis
    proof (cases e)
      case (Some err)
      with \<open>listing = Some found\<close> found show ?thesis by (simp add: unfold reports_Nil)
    next
      case None
      obtain effects r where del: "deleteLaunchConfigurations (mutate w) lcList dryRun = (effects, r)"
        by (cases "deleteLaunchConfigurations (mutate w) lcList dryRun")
      have "Returned (map_option unwrap_awserr r) = Returned (Some (unwrap_awserr err))"
        if "Sdk call \<in> set effects" and "mutate w call = Some err" for call err
        using deleteLaunchConfigurations_failed [OF del that] by simp
      then have "reports (\<lambda>call. True) (mutate w) (effects, Returned (map_option unwrap_awserr r))"
        unfolding reports_iff by blast
      with \<open>listing = Some found\<close> found None del show ?thesis
        by (cases r) (simp_all add: unfold reports_Nil)
    qed
  qed
qed

lemma deleteAutoScaleGroups_reports:
  "reports (\<lambda>call. True) svc
     (case deleteAutoScaleGroups svc asgList force dryRun of (effects, r) \<Rightarrow> (effects, Returned r))"
  by (auto simp: reports_iff split: prod.splits dest: deleteAutoScaleGroups_failed)

lemma CreateAddress_reports:
  "reports (\<lambda>call. True) (mutate w) (CreateAddress w region domain dryRun)"
  by (auto simp: CreateAddress_def reports_iff split: option.splits)

lemma create_loop_all_succeeded:
  "create_loop w instanceCfg name regions = (effects, None) \<Longrightarrow> Sdk call \<in> set effects
     \<Longrightarrow> mutate w call = Some err \<Longrightarrow> False"
  using create_loop_failed [of w instanceCfg name regions effects None call err] by simp

lemma RotateLaunchConfigurations_creates_nothing:
  "RotateLaunchConfigurations w class cfg dryRun = (effects, out) \<Longrightarrow> Sdk call \<in> set effects
     \<Longrightarrow> is_create call \<Longrightarrow> False"
  using RotateLaunchConfigurations_effects_pair [of w "class" cfg dryRun effects out "Sdk call"]
  by auto

lemma CreateLaunchConfigurations_reports:
  "reports is_create (mutate w) (CreateLaunchConfigurations w class dryRun)"
proof (cases "LoadLaunchConfigurationClass w class")
  case (Inl err)
  then show ?thesis
    by (simp add: CreateLaunchConfigurations_def reports_Nil)
next
  case cfg0: (Inr cfg0)
  show ?thesis
  proof (cases "LoadInstanceClass w (InstanceClass cfg0)")
    case (Inl err)
    with cfg0 show ?thesis
      by (simp add: CreateLaunchConfigurations_def reports_Nil)
  next
    case inst: (Inr instanceCfg)
    define cfg where "cfg = Increment w class cfg0"
    define name where "name = Sprintf_name class (Version cfg)"
    obtain created r where loop: "create_loop w instanceCfg name (Regions cfg) = (created, r)"
      by (cases "create_loop w instanceCfg name (Regions cfg)")
    obtain rotated out where rot: "RotateLaunchConfigurations w class cfg dryRun = (rotated, out)"
      by (cases "RotateLaunchConfigurations w class cfg dryRun")
    show ?thesis
    proof (cases "if IAMUser instanceCfg \<noteq> [] then GetIAMUser w (IAMUser instanceCfg) else None")
      case (Some err)
      with cfg0 inst show ?thesis
        by (simp add: CreateLaunchConfigurations_def reports_Nil Let_def)
    next
      case None
      show ?thesis
      proof (cases r)
        case (Some err)
        have "reports is_create (mutate w) (created, Returned (Some err))"
          unfolding reports_iff using create_loop_failed [OF loop] Some by blast
        with cfg0 inst None loop Some show ?thesis
          by (simp add: CreateLaunchConfigurations_def Let_def cfg_def [symmetric] name_def [symmetric])
      next
        case noerr: None
        have both: "reports is_create (mutate w) (created @ rotated, out')" for out'
          unfolding reports_iff
          using create_loop_all_succeeded [OF loop [unfolded noerr]]
            RotateLaunchConfigurations_creates_nothing [OF rot]
          by auto
        have only: "reports is_create (mutate w) (created, out')" for out'
          unfolding reports_iff
          using create_loop_all_succeeded [OF loop [unfolded noerr]] by blast
        show ?thesis
        proof (cases "1 < Retain cfg")
          case True
          with cfg0 inst None loop noerr rot show ?thesis
            by (simp add: CreateLaunchConfigurations_def Let_def cfg_def [symmetric]
                  name_def [symmetric] both split: outcome.splits option.splits)
        next
          case False
          with cfg0 inst None loop noerr show ?thesis
            by (simp add: CreateLaunchConfigurations_def Let_def cfg_def [symmetric]
                  name_def [symmetric] only)
        qed
      qed
    qed
  qed
qed

text \<open>
  In \<open>DeleteLaunchConfigurations\<close>, \<open>deleteAutoScaleGroups\<close> and \<open>CreateAddress\<close>, and for
  the create calls of \<open>CreateLaunchConfigurations\<close>, an error of a mutating call is what
  the operation returns, as the message alone when it is an \<open>awserr.Error\<close> and
  unchanged otherwise.
\<close>

lemma mutating_calls_reported:
  "reports (\<lambda>call. True) (mutate w) (DeleteLaunchConfigurations w search region dryRun)
   \<and> reports (\<lambda>call. True) svc
       (case deleteAutoScaleGroups svc asgList force dryRun of (effects, r) \<Rightarrow> (effects, Returned r))
   \<and> reports (\<lambda>call. True) (mutate w) (CreateAddress w region domain dryRun)
   \<and> reports is_create (mutate w) (CreateLaunchConfigurations w class dryRun)
   \<and> unwrap_awserr (AwsError code message) = PlainError message
   \<and> unwrap_awserr (PlainError message) = PlainError message"
  by (simp add: DeleteLaunchConfigurations_reports deleteAutoScaleGroups_reports
        CreateAddress_reports CreateLaunchConfigurations_reports)

text \<open>
  Claim C7. \<open>RotateLaunchConfigurations\<close> does not read what \<open>deleteLaunchConfigurations\<close>
  returns. The class name is that of the configuration \<open>web-v3\<close>, which no group uses,
  the retention is 0 and the SDK refuses the delete call with an \<open>awserr.Error\<close>: the
  rotation issues the call and returns no error, while \<open>DeleteLaunchConfigurations\<close>,
  on the same refused call, returns the message of the error.
\<close>

theorem rotation_drops_delete_error:
  "fst (GetLaunchConfigurationsByName failing_world ''us-east-1'' ''web-v3'') = [example_lc ''web-v3'' 3]
   \<and> mutate failing_world (DeleteLaunchConfiguration ''us-east-1'' ''web-v3'')
       = Some (AwsError ''Throttling'' ''Rate exceeded'')
   \<and> RotateLaunchConfigurations failing_world ''web-v3'' (example_class\<lparr>Retain := 0\<rparr>) False
       = ([Sdk (DeleteLaunchConfiguration ''us-east-1'' ''web-v3'')], Returned None)
   \<and> DeleteLaunchConfigurations failing_world ''web-v3'' ''us-east-1'' False
       = ([Sdk (DeleteLaunchConfiguration ''us-east-1'' ''web-v3'')],
          Returned (Some (PlainError ''Rate exceeded'')))"
  by code_simp

end
